theory Spec2Isabelle
  imports Complex_Main
begin

section \<open>Formatting primitives of the Go runtime\<close>

text \<open>
  The program is a Go client of a PromQL backend. Strings are byte lists; Go's \<open>int\<close> and
  \<open>time.Duration\<close> are modelled as unbounded integers (the durations handled here are
  at most a few months of nanoseconds, far from the 64-bit limits); a finite \<open>float64\<close>
  is modelled by the rational number it denotes, and the rounding of a conversion or of
  an operation by the function \<open>float64\<close> of the section on durations.
\<close>

definition digit_chars :: string where
  "digit_chars = ''0123456789''"

definition is_digit :: "char \<Rightarrow> bool" where
  "is_digit c = (c \<in> set digit_chars)"

text \<open>Decimal digits of a natural number, most significant first (\<open>strconv.Itoa\<close>).\<close>

fun dec :: "nat \<Rightarrow> string" where
  "dec n = (if n < 10 then [digit_chars ! n] else dec (n div 10) @ [digit_chars ! (n mod 10)])"

declare dec.simps [simp del]

text \<open>The verb \<open>%d\<close>.\<close>

definition fmt_d :: "int \<Rightarrow> string" where
  "fmt_d i = (if i < 0 then ''-'' @ dec (nat (- i)) else dec (nat i))"

text \<open>The verb \<open>%02d\<close>: the sign counts in the width, zeros go after it.\<close>

definition fmt_02d :: "int \<Rightarrow> string" where
  "fmt_02d i =
     (if i < 0 then ''-'' @ replicate (1 - length (dec (nat (- i)))) CHR ''0'' @ dec (nat (- i))
      else replicate (2 - length (dec (nat i))) CHR ''0'' @ dec (nat i))"

text \<open>Go integer division and remainder truncate towards zero.\<close>

definition go_quot :: "int \<Rightarrow> int \<Rightarrow> int" where
  "go_quot a b = sgn a * sgn b * (\<bar>a\<bar> div \<bar>b\<bar>)"

definition go_rem :: "int \<Rightarrow> int \<Rightarrow> int" where
  "go_rem a b = a - b * go_quot a b"

text \<open>The conversion \<open>int(x)\<close> of a float truncates towards zero.\<close>

definition go_int :: "rat \<Rightarrow> int" where
  "go_int x = (if 0 \<le> x then \<lfloor>x\<rfloor> else \<lceil>x\<rceil>)"

text \<open>Rounding of a non-negative value to the nearest integer, ties to even, as
  \<open>strconv\<close> does when it shortens the exact decimal expansion of a float.\<close>

definition round_half_even :: "rat \<Rightarrow> nat" where
  "round_half_even x =
     (let f = \<lfloor>x\<rfloor>; d = x - of_int f
      in nat (if d < 1 / 2 then f else if 1 / 2 < d then f + 1
              else if even f then f else f + 1))"

text \<open>The verbs \<open>%.0f\<close> and \<open>%.2f\<close>: \<open>fmt_f p x\<close> prints \<open>x\<close> with \<open>p\<close> decimals.\<close>

definition fmt_f :: "nat \<Rightarrow> rat \<Rightarrow> string" where
  "fmt_f p x =
     (let n = round_half_even (\<bar>x\<bar> * 10 ^ p);
          ip = dec (n div 10 ^ p);
          fp = dec (n mod 10 ^ p)
      in (if x < 0 then ''-'' else '''') @ ip @
         (if p = 0 then '''' else ''.'' @ replicate (p - length fp) CHR ''0'' @ fp))"

section \<open>Durations\<close>

type_synonym duration = int

definition Nanosecond :: duration where "Nanosecond = 1"
definition Second :: duration where "Second = 1000000000"
definition Minute :: duration where "Minute = 60 * Second"
definition Hour :: duration where "Hour = 60 * Minute"

text \<open>
  A \<open>float64\<close> has a significand of 53 binary digits. \<open>float64 x\<close> is the value the
  machine keeps for the exact result \<open>x\<close> of a conversion or of an arithmetic operation:
  \<open>x\<close> rounded to the nearest multiple of \<open>2 ^ (e - 52)\<close>, ties to the even multiple,
  where \<open>2 ^ e \<le> |x| < 2 ^ (e + 1)\<close>. The numbers met here lie far inside the range of
  normal numbers, so neither overflow nor gradual underflow is modelled.
\<close>

function bit_length :: "int \<Rightarrow> nat" where
  "bit_length n = (if n \<le> 0 then 0 else Suc (bit_length (n div 2)))"
  by pat_completeness auto

termination
  by (relation "measure nat") auto

declare bit_length.simps [simp del]

text \<open>The exponent \<open>e\<close> of a positive number.\<close>

definition binade :: "rat \<Rightarrow> int" where
  "binade x = (if 1 \<le> x then int (bit_length \<lfloor>x\<rfloor>) - 1
               else - int (bit_length (\<lceil>1 / x\<rceil> - 1)))"

definition round_to_even :: "rat \<Rightarrow> int" where
  "round_to_even x =
     (let f = \<lfloor>x\<rfloor>; d = x - of_int f
      in if d < 1 / 2 then f else if 1 / 2 < d then f + 1 else if even f then f else f + 1)"

definition float64 :: "rat \<Rightarrow> rat" where
  "float64 x =
     (if x = 0 then 0
      else let u = power_int 2 (binade \<bar>x\<bar> - 52)
           in of_int (round_to_even (x / u)) * u)"

text \<open>
  \<open>Duration.Hours\<close>, \<open>Minutes\<close> and \<open>Seconds\<close> return the duration as a float: the
  whole units and the remainder are converted, the remainder is divided by the unit and
  the two are added, as in
  \<open>hour := d / Hour; nsec := d % Hour; return float64(hour) + float64(nsec)/(60*60*1e9)\<close>.
  \<open>Hours64\<close>, \<open>Minutes64\<close> and \<open>Seconds64\<close> are these floats, every conversion and
  operation rounded.
\<close>

definition Hours64 :: "duration \<Rightarrow> rat" where
  "Hours64 d =
     (let hour = go_quot d Hour; nsec = go_rem d Hour
      in float64 (float64 (of_int hour) + float64 (float64 (of_int nsec) / (60 * 60 * 1000000000))))"

definition Minutes64 :: "duration \<Rightarrow> rat" where
  "Minutes64 d =
     (let min = go_quot d Minute; nsec = go_rem d Minute
      in float64 (float64 (of_int min) + float64 (float64 (of_int nsec) / (60 * 1000000000))))"

definition Seconds64 :: "duration \<Rightarrow> rat" where
  "Seconds64 d =
     (let sec = go_quot d Second; nsec = go_rem d Second
      in float64 (float64 (of_int sec) + float64 (float64 (of_int nsec) / 1000000000)))"

text \<open>
  \<open>Hours\<close> is the sum of \<open>Duration.Hours\<close> without the roundings, the exact number of
  hours. The window, day and month computations and the time left are written over it:
  they take the hours of differences between dates of the calendar.
\<close>

definition Hours :: "duration \<Rightarrow> rat" where
  "Hours d = of_int (go_quot d Hour) + of_int (go_rem d Hour) / (60 * 60 * 1000000000)"

text \<open>\<open>formatDuration\<close> (the same text in the client and in the \<open>utils\<close> package).\<close>

definition formatDuration :: "duration \<Rightarrow> string" where
  "formatDuration d =
     (let hours = go_int (Hours64 d);
          minutes = go_rem (go_int (Minutes64 d)) 60;
          seconds = go_rem (go_int (Seconds64 d)) 60
      in if hours \<ge> 24 then fmt_d (go_quot hours 24) @ ''d''
         else if minutes > 0 then fmt_d hours @ ''h'' @ fmt_d minutes @ ''m''
         else if seconds > 0 then fmt_d hours @ ''h'' @ fmt_d minutes @ ''m'' @ fmt_d seconds @ ''s''
         else fmt_d hours @ ''h'')"

section \<open>Byte and rate formatting\<close>

definition KB :: rat where "KB = 1024"
definition MB :: rat where "MB = KB * 1024"
definition GB :: rat where "GB = MB * 1024"
definition TB :: rat where "TB = GB * 1024"

definition FormatBytes :: "rat \<Rightarrow> string" where
  "FormatBytes bytes =
     (if bytes \<ge> TB then fmt_f 2 (bytes / TB) @ '' TiB''
      else if bytes \<ge> GB then fmt_f 2 (bytes / GB) @ '' GiB''
      else if bytes \<ge> MB then fmt_f 2 (bytes / MB) @ '' MiB''
      else if bytes \<ge> KB then fmt_f 2 (bytes / KB) @ '' KiB''
      else fmt_f 2 bytes @ '' B'')"

definition FormatBytesPerSecond :: "rat \<Rightarrow> string" where
  "FormatBytesPerSecond bytesPerSecond =
     (if bytesPerSecond \<ge> TB then fmt_f 2 (bytesPerSecond / TB) @ '' TiB/s''
      else if bytesPerSecond \<ge> GB then fmt_f 2 (bytesPerSecond / GB) @ '' GiB/s''
      else if bytesPerSecond \<ge> MB then fmt_f 2 (bytesPerSecond / MB) @ '' MiB/s''
      else if bytesPerSecond \<ge> KB then fmt_f 2 (bytesPerSecond / KB) @ '' KiB/s''
      else fmt_f 2 bytesPerSecond @ '' B/s'')"

text \<open>The unit and divisor of \<open>formatBytes\<close> as the specification words them.\<close>

definition spec_unit :: "rat \<Rightarrow> string \<times> rat" where
  "spec_unit n =
     (if n \<ge> 2 ^ 40 then (''TiB'', 2 ^ 40)
      else if n \<ge> 2 ^ 30 then (''GiB'', 2 ^ 30)
      else if n \<ge> 2 ^ 20 then (''MiB'', 2 ^ 20)
      else if n \<ge> 2 ^ 10 then (''KiB'', 2 ^ 10)
      else (''B'', 1))"

section \<open>Label sets and the label-matcher builder\<close>

text \<open>
  A \<open>model.Metric\<close> is a Go map from label names to label values. The model is the list
  of its entries in the order in which \<open>range\<close> visits them, which Go leaves
  unspecified: a statement for every list is a statement for every iteration order.
  Indexing a missing key yields the empty string.
\<close>

type_synonym Metric = "(string \<times> string) list"

definition label :: "Metric \<Rightarrow> string \<Rightarrow> string" where
  "label labels k = (case map_of labels k of None \<Rightarrow> '''' | Some v \<Rightarrow> v)"

definition skipped :: "string \<Rightarrow> bool" where
  "skipped k = (k = ''__name__'' \<or> k = ''expiry'' \<or> k = ''price'' \<or> k = ''info''
                \<or> k = ''cycle'' \<or> k = ''job'' \<or> k = ''cpu'')"

text \<open>The term \<open>fmt.Sprintf("%s=\"%s\"", k, v)\<close>.\<close>

definition matcher :: "string \<Rightarrow> string \<Rightarrow> string" where
  "matcher k v = k @ ''='' @ [CHR 0x22] @ v @ [CHR 0x22]"

text \<open>The loop of \<open>BuildLabelMatchers\<close>, appending to \<open>matcherStrings\<close>.\<close>

fun matcherLoop :: "Metric \<Rightarrow> string list \<Rightarrow> string list" where
  "matcherLoop [] matcherStrings = matcherStrings"
| "matcherLoop ((k, v) # rest) matcherStrings =
     (if skipped k then matcherLoop rest matcherStrings
      else matcherLoop rest (matcherStrings @ [matcher k v]))"

fun strings_Join :: "string list \<Rightarrow> string \<Rightarrow> string" where
  "strings_Join [] sep = ''''"
| "strings_Join [x] sep = x"
| "strings_Join (x # y # ys) sep = x @ sep @ strings_Join (y # ys) sep"

definition strings_HasSuffix :: "string \<Rightarrow> string \<Rightarrow> bool" where
  "strings_HasSuffix s suffix =
     (length s \<ge> length suffix \<and> drop (length s - length suffix) s = suffix)"

definition BuildLabelMatchers :: "Metric \<Rightarrow> string" where
  "BuildLabelMatchers labels =
     (let result = strings_Join (matcherLoop labels []) '',''
      in if strings_HasSuffix result '','' then take (length result - 1) result else result)"

text \<open>The bookkeeping keys of a label set as the data model of the specification lists
  them for the filter invariant.\<close>

definition bookkeeping :: "string \<Rightarrow> bool" where
  "bookkeeping k = (k = ''expiry'' \<or> k = ''reset_day'' \<or> k = ''price'' \<or> k = ''cycle''
                    \<or> k = ''info'' \<or> k = ''__name__'')"

section \<open>Calendar arithmetic of package \<open>time\<close>\<close>

text \<open>
  A \<open>time.Time\<close> is an instant, kept as nanoseconds since the Unix epoch. A location is
  a fixed offset in seconds east of UTC; \<open>time.Local\<close>, which the program reads from
  its environment, is the parameter \<open>loc\<close> of every function that uses it, and
  \<open>UTC\<close> is the offset zero. The functions follow the library's algorithms: days are
  counted from 1 January of year 1, a date is split by 400-, 100-, 4- and 1-year cycles.
\<close>

type_synonym time = int
type_synonym Location = int

definition UTC :: Location where "UTC = 0"

definition isLeap :: "int \<Rightarrow> bool" where
  "isLeap year = (year mod 4 = 0 \<and> (year mod 100 \<noteq> 0 \<or> year mod 400 = 0))"

definition daysBefore :: "int list" where
  "daysBefore = [0, 31, 59, 90, 120, 151, 181, 212, 243, 273, 304, 334, 365]"

definition daysIn :: "int \<Rightarrow> int \<Rightarrow> int" where
  "daysIn m year =
     (if m = 2 \<and> isLeap year then 29 else daysBefore ! nat m - daysBefore ! nat (m - 1))"

definition daysSinceYear1 :: "int \<Rightarrow> int" where
  "daysSinceYear1 year =
     365 * (year - 1) + (year - 1) div 4 - (year - 1) div 100 + (year - 1) div 400"

definition unixEpochDay :: int where
  "unixEpochDay = 719162"

definition nsPerDay :: int where
  "nsPerDay = 86400 * Second"

text \<open>
  \<open>time.Date(year, month, day, 0, 0, 0, 0, loc)\<close>. The month is normalised into the
  year first; the day is then added to the first of that month without any range check,
  so a day beyond the month's length runs over into the following month.
\<close>

definition time_Date :: "int \<Rightarrow> int \<Rightarrow> int \<Rightarrow> Location \<Rightarrow> time" where
  "time_Date year month day loc =
     (let m = month - 1;
          year' = year + m div 12;
          month' = m mod 12 + 1;
          d = daysSinceYear1 year' + daysBefore ! nat (month' - 1)
              + (if isLeap year' \<and> month' \<ge> 3 then 1 else 0) + (day - 1)
      in (d - unixEpochDay) * nsPerDay - loc * Second)"

text \<open>The day count of an instant as a wall clock in \<open>loc\<close> shows it.\<close>

definition absDays :: "Location \<Rightarrow> time \<Rightarrow> int" where
  "absDays loc t = (t + loc * Second) div nsPerDay + unixEpochDay"

text \<open>Year and zero-based day of the year of a day count.\<close>

definition absDate :: "int \<Rightarrow> int \<times> int" where
  "absDate days =
     (let n400 = days div 146097; d1 = days mod 146097;
          n100 = d1 div 36524; n100' = n100 - n100 div 4; d2 = d1 - 36524 * n100';
          n4 = d2 div 1461; d3 = d2 mod 1461;
          n1 = d3 div 365; n1' = n1 - n1 div 4; d4 = d3 - 365 * n1'
      in (400 * n400 + 100 * n100' + 4 * n4 + n1' + 1, d4))"

text \<open>Month and day of the month from the year and the day of the year.\<close>

definition monthDay :: "int \<Rightarrow> int \<Rightarrow> int \<times> int" where
  "monthDay year yday =
     (if isLeap year \<and> yday = 31 + 29 - 1 then (2, 29)
      else
        let day = (if isLeap year \<and> yday > 31 + 29 - 1 then yday - 1 else yday);
            month = day div 31;
            end = daysBefore ! nat (month + 1)
        in if day \<ge> end then (month + 2, day - end + 1)
           else (month + 1, day - daysBefore ! nat month + 1))"

definition Year :: "Location \<Rightarrow> time \<Rightarrow> int" where
  "Year loc t = fst (absDate (absDays loc t))"

definition Month :: "Location \<Rightarrow> time \<Rightarrow> int" where
  "Month loc t = (let (year, yday) = absDate (absDays loc t) in fst (monthDay year yday))"

definition Day :: "Location \<Rightarrow> time \<Rightarrow> int" where
  "Day loc t = (let (year, yday) = absDate (absDays loc t) in snd (monthDay year yday))"

text \<open>
  \<open>t.Truncate(d)\<close> rounds the instant down to a multiple of \<open>d\<close> counted from the
  zero time (1 January of year 1, UTC), whatever the location of \<open>t\<close>.
\<close>

definition Truncate :: "time \<Rightarrow> duration \<Rightarrow> time" where
  "Truncate t d = (if d \<le> 0 then t else t - (t + unixEpochDay * nsPerDay) mod d)"

datatype error = ParseError string | BackendError string | Errorf string error

text \<open>
  \<open>time.Parse("2006-01-02", s)\<close>: four digits, a dash, two digits, a dash, two
  digits and nothing else; the month within 1 to 12 and the day within the month. The
  result is midnight UTC of that date.
\<close>

definition atoi :: "string \<Rightarrow> int" where
  "atoi s = foldl (\<lambda>acc c. 10 * acc + (int (of_char c) - 48)) 0 s"

definition time_Parse :: "string \<Rightarrow> error + time" where
  "time_Parse s =
     (if length s = 10 \<and> s ! 4 = CHR ''-'' \<and> s ! 7 = CHR ''-''
         \<and> list_all is_digit (take 4 s) \<and> list_all is_digit (take 2 (drop 5 s))
         \<and> list_all is_digit (drop 8 s)
      then
        let year = atoi (take 4 s); month = atoi (take 2 (drop 5 s)); day = atoi (drop 8 s)
        in if month < 1 \<or> 12 < month then Inl (ParseError s)
           else if day < 1 \<or> day > daysIn month year then Inl (ParseError s)
           else Inr (time_Date year month day UTC)
      else Inl (ParseError s))"

section \<open>The billing-cycle window\<close>

text \<open>
  The window computation of \<open>GetInstanceInfo\<close>. The function has it twice, once for
  the day of the \<open>reset_day\<close> label and once for the day of the expiry date, the same
  statements up to the name of the day variable; \<open>lastReset\<close> and \<open>nextReset\<close> are
  that text with the day as their argument.
\<close>

definition lastReset :: "Location \<Rightarrow> time \<Rightarrow> int \<Rightarrow> time" where
  "lastReset loc now resetDayOfMonth =
     (let year = Year loc now; month = Month loc now;
          currentMonthResetDate = time_Date year month resetDayOfMonth loc
      in if currentMonthResetDate < now \<or> currentMonthResetDate = Truncate now (24 * Hour)
         then currentMonthResetDate
         else
           let lastMonthYear = (if month - 1 < 1 then year - 1 else year);
               lastMonthMonth = (if month - 1 < 1 then 12 else month - 1);
               lastResetDate = time_Date lastMonthYear lastMonthMonth resetDayOfMonth loc;
               lastDayOfMonth = Day loc (time_Date (Year loc lastResetDate)
                                           (Month loc lastResetDate + 1) 0 loc)
           in if resetDayOfMonth > lastDayOfMonth
              then time_Date (Year loc lastResetDate) (Month loc lastResetDate) lastDayOfMonth loc
              else lastResetDate)"

definition nextReset :: "Location \<Rightarrow> time \<Rightarrow> int \<Rightarrow> time" where
  "nextReset loc now resetDayOfMonth =
     (let year = Year loc now; month = Month loc now;
          currentMonthResetDate = time_Date year month resetDayOfMonth loc
      in if currentMonthResetDate > now then currentMonthResetDate
         else
           let nextMonthYear = (if month + 1 > 12 then year + 1 else year);
               nextMonthMonth = (if month + 1 > 12 then 1 else month + 1);
               nextResetDate = time_Date nextMonthYear nextMonthMonth resetDayOfMonth loc;
               lastDayOfMonth = Day loc (time_Date (Year loc nextResetDate)
                                           (Month loc nextResetDate + 1) 0 loc)
           in if resetDayOfMonth > lastDayOfMonth
              then time_Date (Year loc nextResetDate) (Month loc nextResetDate) lastDayOfMonth loc
              else nextResetDate)"

definition calculateDaysDifference :: "time \<Rightarrow> time \<Rightarrow> int" where
  "calculateDaysDifference now lastMonthExpiry =
     (let daysDiff = go_int (of_int \<lfloor>Hours (now - lastMonthExpiry) / 24\<rfloor>)
      in if daysDiff < 0 then - daysDiff else daysDiff)"

text \<open>The range-window string of the cycle-traffic query.\<close>

definition cycleDuration :: "time \<Rightarrow> time \<Rightarrow> string" where
  "cycleDuration now lastResetDate =
     formatDuration (calculateDaysDifference now lastResetDate * 24 * Hour)"

text \<open>\<open>fmt.Sprintf("%d-%02d-%02d", t.Year(), t.Month(), t.Day())\<close>.\<close>

definition dateStr :: "Location \<Rightarrow> time \<Rightarrow> string" where
  "dateStr loc t = fmt_d (Year loc t) @ ''-'' @ fmt_02d (Month loc t) @ ''-'' @ fmt_02d (Day loc t)"

text \<open>
  The anchor day and the window of a label set: the day of \<open>reset_day\<close> when that
  label is not empty, the day of the expiry date otherwise. Both dates are parsed in UTC
  and their day is read in UTC.
\<close>

record CycleWindow =
  lastResetDate :: time
  nextResetDate :: time
  durationStr :: string
  resetDateStr :: string

definition mkWindow :: "Location \<Rightarrow> time \<Rightarrow> int \<Rightarrow> CycleWindow" where
  "mkWindow loc now resetDayOfMonth =
     \<lparr> lastResetDate = lastReset loc now resetDayOfMonth,
       nextResetDate = nextReset loc now resetDayOfMonth,
       durationStr = cycleDuration now (lastReset loc now resetDayOfMonth),
       resetDateStr = dateStr loc (nextReset loc now resetDayOfMonth) \<rparr>"

definition cycleWindow :: "Location \<Rightarrow> time \<Rightarrow> Metric \<Rightarrow> error + CycleWindow" where
  "cycleWindow loc now labels =
     (case time_Parse (label labels ''expiry'') of
        Inl err \<Rightarrow> Inl (Errorf ''Failed to parse expiry date'' err)
      | Inr expiryTime \<Rightarrow>
          if label labels ''reset_day'' \<noteq> []
          then (case time_Parse (label labels ''reset_day'') of
                  Inl err \<Rightarrow> Inl (Errorf ''Failed to parse reset day'' err)
                | Inr resetDay \<Rightarrow> Inr (mkWindow loc now (Day UTC resetDay)))
          else Inr (mkWindow loc now (Day UTC expiryTime)))"

text \<open>
  The helper \<open>calculateLastMonthExpiry\<close> of the same file, with
  \<open>shiftToPreviousMonth\<close>: it compares the day with the length of the month before it
  builds the date.
\<close>

definition shiftToPreviousMonth :: "Location \<Rightarrow> int \<Rightarrow> int \<Rightarrow> int \<Rightarrow> time" where
  "shiftToPreviousMonth loc year month day =
     (let prevYear = (if month - 1 < 1 then year - 1 else year);
          prevMonth = (if month - 1 < 1 then 12 else month - 1);
          daysInPrevMonth = Day loc (time_Date prevYear (prevMonth + 1) 0 loc)
      in if day > daysInPrevMonth then time_Date prevYear prevMonth daysInPrevMonth loc
         else time_Date prevYear prevMonth day loc)"

definition calculateLastMonthExpiry :: "Location \<Rightarrow> time \<Rightarrow> time \<Rightarrow> time" where
  "calculateLastMonthExpiry loc expiryTime now =
     (let expiryDay = Day UTC expiryTime;
          currentYear = Year loc now; currentMonth = Month loc now; currentDay = Day loc now;
          daysInCurrentMonth = Day loc (time_Date currentYear (currentMonth + 1) 0 loc)
      in if currentDay \<ge> expiryDay
         then
           let lastMonthExpiry =
                 (if expiryDay \<le> daysInCurrentMonth
                  then time_Date currentYear currentMonth expiryDay loc
                  else time_Date currentYear currentMonth daysInCurrentMonth loc)
           in if lastMonthExpiry > now
              then shiftToPreviousMonth loc currentYear currentMonth expiryDay
              else lastMonthExpiry
         else shiftToPreviousMonth loc currentYear currentMonth expiryDay)"

section \<open>The query client\<close>

text \<open>
  A query result is one of the variants of \<open>model.Value\<close>. A sample of a vector is
  kept as its value and a series of a matrix as the list of its sample values, the only
  parts the client reads. The backend is a pair of functions, one for instant queries
  and one for range queries, that answer with a value or with an error.
\<close>

datatype Value = ValScalar rat | ValVector "rat list" | ValMatrix "rat list list" | ValString string

record API =
  api_Query :: "string \<Rightarrow> time \<Rightarrow> error + Value"
  api_QueryRange :: "string \<Rightarrow> time \<Rightarrow> time \<Rightarrow> duration \<Rightarrow> error + Value"

text \<open>
  A function that can stop with a run-time panic returns a \<open>result\<close>; a function whose
  every index and type assertion is guarded returns \<open>error + 'a\<close>.
\<close>

datatype 'a result = Ok 'a | Err error | Panic string

definition QueryPrometheus :: "API \<Rightarrow> string \<Rightarrow> time \<Rightarrow> error + Value" where
  "QueryPrometheus c query queryTime =
     (case api_Query c query queryTime of
        Inl err \<Rightarrow> Inl (Errorf ''Failed to query Prometheus'' err)
      | Inr result \<Rightarrow> Inr result)"

definition GetFloatFromPromResult :: "Value \<Rightarrow> rat" where
  "GetFloatFromPromResult result =
     (case result of ValVector (x # xs) \<Rightarrow> x | _ \<Rightarrow> 0)"

definition QueryRange :: "API \<Rightarrow> string \<Rightarrow> time \<Rightarrow> time \<Rightarrow> time \<Rightarrow> duration \<Rightarrow> rat result" where
  "QueryRange c query now start end step =
     (case api_QueryRange c query start end step of
        Inl err \<Rightarrow> Err (Errorf ''Failed to query yesterday transmit bytes'' err)
      | Inr queryResult \<Rightarrow>
          (case queryResult of
             ValMatrix (series # rest) \<Rightarrow>
               if int (length series) - 1 < 0 then Panic ''index out of range [-1]''
               else Ok (series ! nat (int (length series) - 1))
           | _ \<Rightarrow> Ok 0))"

definition quoted :: "string \<Rightarrow> string" where
  "quoted s = [CHR 0x22] @ s @ [CHR 0x22]"

definition deviceFilter :: string where
  "deviceFilter = ''device=~'' @ quoted ''eth.*|ens.*|eno.*|enp.*|enx.*|enX.*|wlan.*|venet.*''"

text \<open>A selector \<open>metric{labelMatchers, extra}\<close>, or \<open>metric{extra}\<close> when the label
  matchers are empty: the two format strings of each query.\<close>

definition selector :: "string \<Rightarrow> string \<Rightarrow> string \<Rightarrow> string" where
  "selector metric labelMatchers extra =
     (if length labelMatchers \<noteq> 0 then metric @ ''{'' @ labelMatchers @ '', '' @ extra @ ''}''
      else metric @ ''{'' @ extra @ ''}'')"

definition queryNodeBootTime :: "API \<Rightarrow> Metric \<Rightarrow> time \<Rightarrow> error + string" where
  "queryNodeBootTime c labels queryTime =
     (let labelMatchers = BuildLabelMatchers labels;
          bootTimeQuery = ''time() - node_boot_time_seconds{'' @ labelMatchers @ ''}''
      in case QueryPrometheus c bootTimeQuery queryTime of
           Inl err \<Rightarrow> Inl (Errorf ''Failed to query node boot time'' err)
         | Inr bootTimeResult \<Rightarrow>
             (case bootTimeResult of
                ValVector (x # xs) \<Rightarrow>
                  Inr (formatDuration (go_int (GetFloatFromPromResult bootTimeResult) * Second))
              | _ \<Rightarrow> Inr ''''))"

text \<open>The guarded read that \<open>queryTrafficForDuration\<close> writes out for each of its two
  results: the value of the first sample of a non-empty vector, zero otherwise.\<close>

definition firstSample :: "Value \<Rightarrow> rat" where
  "firstSample result = (case result of ValVector (x # xs) \<Rightarrow> x | _ \<Rightarrow> 0)"

definition queryTrafficForDuration :: "API \<Rightarrow> Metric \<Rightarrow> string \<Rightarrow> time \<Rightarrow> error + rat \<times> rat" where
  "queryTrafficForDuration c labels duration now =
     (let labelMatchers = BuildLabelMatchers labels;
          transmitQuery = ''sum(increase('' @ selector ''node_network_transmit_bytes_total''
                            labelMatchers deviceFilter @ ''['' @ duration @ '']))'';
          receiveQuery = ''sum(increase('' @ selector ''node_network_receive_bytes_total''
                            labelMatchers deviceFilter @ ''['' @ duration @ '']))''
      in case QueryPrometheus c transmitQuery now of
           Inl err \<Rightarrow> Inl (Errorf ''Failed to query transmit bytes'' err)
         | Inr transmitResult \<Rightarrow>
             (case QueryPrometheus c receiveQuery now of
                Inl err \<Rightarrow> Inl (Errorf ''Failed to query receive bytes'' err)
              | Inr receiveResult \<Rightarrow> Inr (firstSample transmitResult, firstSample receiveResult)))"

definition GetDailyTraffic :: "API \<Rightarrow> Location \<Rightarrow> Metric \<Rightarrow> time \<Rightarrow> error + rat \<times> rat" where
  "GetDailyTraffic c loc labels now =
     (let startOfDay = time_Date (Year loc now) (Month loc now) (Day loc now) loc;
          durationCurrentDay = fmt_f 0 (Hours (now - startOfDay)) @ ''h''
      in queryTrafficForDuration c labels durationCurrentDay now)"

definition GetNaturalMonthTraffic :: "API \<Rightarrow> Location \<Rightarrow> Metric \<Rightarrow> time \<Rightarrow> error + rat \<times> rat" where
  "GetNaturalMonthTraffic c loc labels now =
     (let startOfMonth = time_Date (Year loc now) (Month loc now) 1 loc;
          durationCurrentMonth = fmt_f 0 (Hours (now - startOfMonth)) @ ''h''
      in queryTrafficForDuration c labels durationCurrentMonth now)"

definition GetYesterdayTraffic :: "API \<Rightarrow> Location \<Rightarrow> Metric \<Rightarrow> time \<Rightarrow> (rat \<times> rat) result" where
  "GetYesterdayTraffic c loc labels now =
     (let yesterday = now + (- 24) * Hour;
          startOfYesterday = time_Date (Year loc yesterday) (Month loc yesterday) (Day loc yesterday) loc;
          endOfYesterday = time_Date (Year loc now) (Month loc now) (Day loc now) loc + (- Second);
          step = Hour * 24;
          labelMatchers = BuildLabelMatchers labels;
          transmitQuery = ''sum(increase('' @ selector ''node_network_transmit_bytes_total''
                            labelMatchers deviceFilter @ ''[1d]))'';
          receiveQuery = ''sum(increase('' @ selector ''node_network_receive_bytes_total''
                            labelMatchers deviceFilter @ ''[1d]))''
      in case QueryRange c transmitQuery now startOfYesterday endOfYesterday step of
           Err err \<Rightarrow> Err (Errorf ''failed to query yesterday transmit bytes'' err)
         | Panic p \<Rightarrow> Panic p
         | Ok transmitResult \<Rightarrow>
             (case QueryRange c receiveQuery now startOfYesterday endOfYesterday step of
                Err err \<Rightarrow> Err (Errorf ''failed to query yesterday transmit bytes'' err)
              | Panic p \<Rightarrow> Panic p
              | Ok receiveResult \<Rightarrow> Ok (transmitResult, receiveResult)))"

record ResourceMetrics =
  cpuUsage :: rat
  memoryUsage :: rat
  diskUsage :: rat
  diskTotal :: rat
  diskAvaileble :: rat
  memTotal :: rat
  memAvaileble :: rat

definition noResourceMetrics :: ResourceMetrics where
  "noResourceMetrics = \<lparr> cpuUsage = 0, memoryUsage = 0, diskUsage = 0, diskTotal = 0,
                         diskAvaileble = 0, memTotal = 0, memAvaileble = 0 \<rparr>"

definition notRootfs :: string where
  "notRootfs = ''fstype!='' @ quoted ''rootfs''"

definition FetchResourceMetrics :: "API \<Rightarrow> Metric \<Rightarrow> string \<Rightarrow> time \<Rightarrow> error + ResourceMetrics" where
  "FetchResourceMetrics c labels duration now =
     (let labelMatchers = BuildLabelMatchers labels;
          some = (length labelMatchers > 0);
          sel = (\<lambda>metric extra. selector metric labelMatchers extra);
          cpuQuery = ''avg(rate('' @ sel ''node_cpu_seconds_total'' (''mode!='' @ quoted ''idle'')
                       @ ''['' @ duration @ ''])) * 100'';
          memoryQuery = ''(1 - avg(node_memory_MemAvailable_bytes{'' @ labelMatchers
                          @ ''}) / avg(node_memory_MemTotal_bytes{'' @ labelMatchers @ ''}))*100'';
          diskQuery = ''(1 - avg('' @ sel ''node_filesystem_avail_bytes'' notRootfs
                        @ '') / avg('' @ sel ''node_filesystem_size_bytes'' notRootfs @ ''))*100'';
          diskTotalQuery = sel ''node_filesystem_size_bytes''
                             (notRootfs @ '',fstype=~'' @ quoted ''ext4|xfs'');
          diskAvailebleQuery = sel ''node_filesystem_avail_bytes''
                                 (notRootfs @ '',fstype=~'' @ quoted ''ext4|xfs'');
          memTotalQuery = (if some then ''node_memory_MemTotal_bytes{'' @ labelMatchers @ ''}''
                           else ''node_memory_MemTotal_bytes'');
          memAvailebleQuery = (if some then ''node_memory_MemAvailable_bytes{'' @ labelMatchers @ ''}''
                               else ''node_memory_MemAvailable_bytes'')
      in case QueryPrometheus c cpuQuery now of
           Inl err \<Rightarrow> Inl (Errorf ''Failed to query CPU usage'' err)
         | Inr cpuResult \<Rightarrow>
        (case QueryPrometheus c memoryQuery now of
           Inl err \<Rightarrow> Inl (Errorf ''Failed to query memory usage'' err)
         | Inr memoryResult \<Rightarrow>
        (case QueryPrometheus c memTotalQuery now of
           Inl err \<Rightarrow> Inl (Errorf ''Failed to query memory total'' err)
         | Inr memTotalResult \<Rightarrow>
        (case QueryPrometheus c memAvailebleQuery now of
           Inl err \<Rightarrow> Inl (Errorf ''Failed to query memory availeble'' err)
         | Inr memAvailebleResult \<Rightarrow>
        (case QueryPrometheus c diskQuery now of
           Inl err \<Rightarrow> Inl (Errorf ''Failed to query disk usage'' err)
         | Inr diskResult \<Rightarrow>
        (case QueryPrometheus c diskTotalQuery now of
           Inl err \<Rightarrow> Inl (Errorf ''Failed to query disk total'' err)
         | Inr diskTotalResult \<Rightarrow>
        (case QueryPrometheus c diskAvailebleQuery now of
           Inl err \<Rightarrow> Inl (Errorf ''Failed to query disk availeble'' err)
         | Inr diskAvailebleResult \<Rightarrow>
             Inr \<lparr> cpuUsage = GetFloatFromPromResult cpuResult,
                   memoryUsage = GetFloatFromPromResult memoryResult,
                   diskUsage = GetFloatFromPromResult diskResult,
                   diskTotal = GetFloatFromPromResult diskTotalResult,
                   diskAvaileble = GetFloatFromPromResult diskAvailebleResult,
                   memTotal = GetFloatFromPromResult memTotalResult,
                   memAvaileble = GetFloatFromPromResult memAvailebleResult \<rparr>)))))))"

definition QueryNetworkRate :: "API \<Rightarrow> Metric \<Rightarrow> time \<Rightarrow> error + rat \<times> rat" where
  "QueryNetworkRate c labels now =
     (let labelMatchers = BuildLabelMatchers labels;
          uploadQuery = ''sum(rate('' @ (if length labelMatchers > 0
                           then ''node_network_transmit_bytes_total{'' @ labelMatchers @ '', '' @ deviceFilter @ ''}''
                           else ''node_network_transmit_bytes_total{'' @ deviceFilter @ ''}'') @ ''[1m]))'';
          downloadQuery = ''sum(rate('' @ (if length labelMatchers > 0
                           then ''node_network_receive_bytes_total{'' @ labelMatchers @ '', '' @ deviceFilter @ ''}''
                           else ''node_network_receive_bytes_total{'' @ deviceFilter @ ''}'') @ ''[1m]))''
      in case QueryPrometheus c uploadQuery now of
           Inl err \<Rightarrow> Inl (Errorf ''Failed to query upload rate'' err)
         | Inr uploadResult \<Rightarrow>
             (case QueryPrometheus c downloadQuery now of
                Inl err \<Rightarrow> Inl (Errorf ''Failed to query download rate'' err)
              | Inr downloadResult \<Rightarrow>
                  Inr (GetFloatFromPromResult uploadResult, GetFloatFromPromResult downloadResult)))"

text \<open>
  The query texts of the uptime, rate and resource fetches, under the names of the local
  variables that hold them in \<open>queryNodeBootTime\<close>, \<open>QueryNetworkRate\<close> and
  \<open>FetchResourceMetrics\<close>.
\<close>

definition bootTimeQuery :: "Metric \<Rightarrow> string" where
  "bootTimeQuery labels = ''time() - node_boot_time_seconds{'' @ BuildLabelMatchers labels @ ''}''"

definition uploadQuery :: "Metric \<Rightarrow> string" where
  "uploadQuery labels =
     ''sum(rate('' @ (if length (BuildLabelMatchers labels) > 0
        then ''node_network_transmit_bytes_total{'' @ BuildLabelMatchers labels @ '', '' @ deviceFilter @ ''}''
        else ''node_network_transmit_bytes_total{'' @ deviceFilter @ ''}'') @ ''[1m]))''"

definition downloadQuery :: "Metric \<Rightarrow> string" where
  "downloadQuery labels =
     ''sum(rate('' @ (if length (BuildLabelMatchers labels) > 0
        then ''node_network_receive_bytes_total{'' @ BuildLabelMatchers labels @ '', '' @ deviceFilter @ ''}''
        else ''node_network_receive_bytes_total{'' @ deviceFilter @ ''}'') @ ''[1m]))''"

definition cpuQuery :: "Metric \<Rightarrow> string \<Rightarrow> string" where
  "cpuQuery labels duration =
     ''avg(rate('' @ selector ''node_cpu_seconds_total'' (BuildLabelMatchers labels)
                       (''mode!='' @ quoted ''idle'') @ ''['' @ duration @ ''])) * 100''"

definition memoryQuery :: "Metric \<Rightarrow> string" where
  "memoryQuery labels =
     ''(1 - avg(node_memory_MemAvailable_bytes{'' @ BuildLabelMatchers labels
       @ ''}) / avg(node_memory_MemTotal_bytes{'' @ BuildLabelMatchers labels @ ''}))*100''"

definition diskQuery :: "Metric \<Rightarrow> string" where
  "diskQuery labels =
     ''(1 - avg('' @ selector ''node_filesystem_avail_bytes'' (BuildLabelMatchers labels) notRootfs
       @ '') / avg('' @ selector ''node_filesystem_size_bytes'' (BuildLabelMatchers labels) notRootfs
       @ ''))*100''"

definition diskTotalQuery :: "Metric \<Rightarrow> string" where
  "diskTotalQuery labels =
     selector ''node_filesystem_size_bytes'' (BuildLabelMatchers labels)
       (notRootfs @ '',fstype=~'' @ quoted ''ext4|xfs'')"

definition diskAvailebleQuery :: "Metric \<Rightarrow> string" where
  "diskAvailebleQuery labels =
     selector ''node_filesystem_avail_bytes'' (BuildLabelMatchers labels)
       (notRootfs @ '',fstype=~'' @ quoted ''ext4|xfs'')"

definition memTotalQuery :: "Metric \<Rightarrow> string" where
  "memTotalQuery labels =
     (if length (BuildLabelMatchers labels) > 0
      then ''node_memory_MemTotal_bytes{'' @ BuildLabelMatchers labels @ ''}''
      else ''node_memory_MemTotal_bytes'')"

definition memAvailebleQuery :: "Metric \<Rightarrow> string" where
  "memAvailebleQuery labels =
     (if length (BuildLabelMatchers labels) > 0
      then ''node_memory_MemAvailable_bytes{'' @ BuildLabelMatchers labels @ ''}''
      else ''node_memory_MemAvailable_bytes'')"

definition calculateTimeLeft :: "duration \<Rightarrow> int \<times> int \<times> int" where
  "calculateTimeLeft timeLeft =
     (let yearsLeft = go_int (Hours timeLeft / (24 * 365));
          monthsLeft = go_int (Hours timeLeft / (24 * 30) - of_int yearsLeft * 12);
          daysLeft = go_int (Hours timeLeft / 24) - yearsLeft * 365 - monthsLeft * 30
      in (yearsLeft, monthsLeft, daysLeft))"

section \<open>The instance report\<close>

text \<open>
  \<open>GetInstanceInfo\<close> returns one text in which fixed captions alternate with the
  renderings of the values it has gathered. The model returns those values as a record,
  in the order of the text; the byte counts and rates are kept as numbers, which the
  text renders with \<open>FormatBytes\<close> and \<open>FormatBytesPerSecond\<close>. The clock reading
  \<open>time.Now()\<close> is the argument \<open>now\<close>.
\<close>

record InstanceInfo =
  instanceStr :: string
  infoStr :: string
  bootTime :: string
  expiryStr :: string
  priceStr :: string
  cycleStr :: string
  timeLeft :: "int \<times> int \<times> int"
  resetDate :: string
  resetTraffic :: "rat \<times> rat"
  naturalMonthTraffic :: "rat \<times> rat"
  yesterdayTraffic :: "rat \<times> rat"
  naturalDailyTraffic :: "rat \<times> rat"
  networkRate :: "rat \<times> rat"
  resources :: ResourceMetrics

definition GetInstanceInfo :: "API \<Rightarrow> Location \<Rightarrow> time \<Rightarrow> Metric \<Rightarrow> InstanceInfo result" where
  "GetInstanceInfo c loc now labels =
     (case time_Parse (label labels ''expiry'') of
        Inl err \<Rightarrow> Err (Errorf ''Failed to parse expiry date'' err)
      | Inr expiryTime \<Rightarrow>
     (case cycleWindow loc now labels of
        Inl err \<Rightarrow> Err err
      | Inr window \<Rightarrow>
     (case queryTrafficForDuration c labels (durationStr window) now of
        Inl err \<Rightarrow> Err (Errorf ''Failed to query reset day traffic'' err)
      | Inr reset \<Rightarrow>
     (let boot = (case queryNodeBootTime c labels now of Inl err \<Rightarrow> '''' | Inr s \<Rightarrow> s)
      in
     (case GetNaturalMonthTraffic c loc labels now of
        Inl err \<Rightarrow> Err (Errorf ''Failed to query natural month traffic'' err)
      | Inr naturalMonth \<Rightarrow>
     (case GetYesterdayTraffic c loc labels now of
        Err err \<Rightarrow> Err (Errorf ''Failed to query yesterday traffic'' err)
      | Panic p \<Rightarrow> Panic p
      | Ok yesterday \<Rightarrow>
     (case GetDailyTraffic c loc labels now of
        Inl err \<Rightarrow> Err (Errorf ''Failed to query natural daily traffic'' err)
      | Inr naturalDaily \<Rightarrow>
     (let rate = (case QueryNetworkRate c labels now of Inl err \<Rightarrow> (0, 0) | Inr r \<Rightarrow> r);
          res = (case FetchResourceMetrics c labels (durationStr window) now of
                   Inl err \<Rightarrow> noResourceMetrics | Inr m \<Rightarrow> m)
      in Ok \<lparr> instanceStr = label labels ''instance'',
              infoStr = label labels ''info'',
              bootTime = boot,
              expiryStr = label labels ''expiry'',
              priceStr = label labels ''price'',
              cycleStr = label labels ''cycle'',
              timeLeft = calculateTimeLeft (expiryTime - now),
              resetDate = resetDateStr window,
              resetTraffic = reset,
              naturalMonthTraffic = naturalMonth,
              yesterdayTraffic = yesterday,
              naturalDailyTraffic = naturalDaily,
              networkRate = rate,
              resources = res \<rparr>))))))))"

section \<open>Backends and labels of the examples\<close>

text \<open>
  Four backends on which the statements below are run: one whose range query fails
  while every instant query answers; one that answers only the traffic queries
  (those that start with \<open>sum(increase(\<close>) and refuses every other instant query; one
  that answers the traffic queries, refuses the rate queries (those that start with
  \<open>sum(rate(\<close>) and has no series for any other query, instant or range; one whose
  range query answers with a matrix whose first series has no sample.
\<close>

definition rangeDownBackend :: API where
  "rangeDownBackend =
     \<lparr> api_Query = (\<lambda>query t. Inr (ValVector [1024])),
       api_QueryRange = (\<lambda>query start end step. Inl (BackendError ''connection refused'')) \<rparr>"

definition trafficOnlyBackend :: API where
  "trafficOnlyBackend =
     \<lparr> api_Query = (\<lambda>query t. if take 13 query = ''sum(increase(''
                                 then Inr (ValVector [1024])
                                 else Inl (BackendError ''connection refused'')),
       api_QueryRange = (\<lambda>query start end step. Inr (ValMatrix [[512, 2048]])) \<rparr>"

definition degradedBackend :: API where
  "degradedBackend =
     \<lparr> api_Query = (\<lambda>query t. if take 13 query = ''sum(increase('' then Inr (ValVector [1024])
                                 else if take 9 query = ''sum(rate('' then Inl (BackendError ''connection refused'')
                                 else Inr (ValVector [])),
       api_QueryRange = (\<lambda>query start end step. Inr (ValMatrix [])) \<rparr>"

definition emptySeriesBackend :: API where
  "emptySeriesBackend =
     \<lparr> api_Query = (\<lambda>query t. Inr (ValVector [])),
       api_QueryRange = (\<lambda>query start end step. Inr (ValMatrix [[]])) \<rparr>"

definition exampleLabels :: Metric where
  "exampleLabels = [(''instance'', ''host1:9100''), (''expiry'', ''2024-03-31'')]"

section \<open>Calendar facts used below\<close>

lemma day_is_24_hours: "24 * Hour = nsPerDay"
  by (simp add: nsPerDay_def Hour_def Minute_def)

lemma nsPerDay_pos: "0 < nsPerDay"
  by (simp add: nsPerDay_def Second_def)

text \<open>A few readings of the calendar functions against known dates, among them the
  run-over of a day beyond the end of its month and the last-day idiom
  \<open>time.Date(y, m + 1, 0, ...)\<close>.\<close>

lemma time_Date_epoch: "time_Date 1970 1 1 UTC = 0"
  by code_simp

lemma time_Date_known: "time_Date 2024 5 1 UTC = 1714521600 * Second"
  by code_simp

lemma time_Date_runs_over:
  "time_Date 2024 4 31 UTC = time_Date 2024 5 1 UTC \<and>
   time_Date 2024 2 31 UTC = time_Date 2024 3 2 UTC \<and>
   time_Date 2023 2 31 UTC = time_Date 2023 3 3 UTC"
  by code_simp

lemma last_day_idiom:
  "Day UTC (time_Date 2024 (2 + 1) 0 UTC) = 29 \<and> Day UTC (time_Date 2023 (2 + 1) 0 UTC) = 28 \<and>
   Day UTC (time_Date 2024 (4 + 1) 0 UTC) = 30 \<and> Day UTC (time_Date 2024 (12 + 1) 0 UTC) = 31 \<and>
   Day UTC (time_Date 2100 (2 + 1) 0 UTC) = 28 \<and> Day UTC (time_Date 2000 (2 + 1) 0 UTC) = 29"
  by code_simp

lemma civil_of_known:
  "dateStr UTC (time_Date 2024 12 31 UTC) = ''2024-12-31'' \<and>
   dateStr UTC (time_Date 2023 12 31 UTC + 23 * Hour) = ''2023-12-31'' \<and>
   dateStr UTC (time_Date 2024 2 29 UTC) = ''2024-02-29'' \<and>
   dateStr UTC (time_Date 2024 3 1 UTC - 1) = ''2024-02-29'' \<and>
   dateStr (8 * 3600) (time_Date 2024 3 1 UTC - 1) = ''2024-03-01''"
  by code_simp

lemma time_Parse_known:
  "time_Parse ''2024-03-31'' = Inr (time_Date 2024 3 31 UTC) \<and>
   time_Parse ''2024-02-30'' = Inl (ParseError ''2024-02-30'') \<and>
   time_Parse ''2024-3-31'' = Inl (ParseError ''2024-3-31'') \<and>
   time_Parse '''' = Inl (ParseError '''')"
  by code_simp

section \<open>The cycle window on concrete clocks\<close>

text \<open>
  The sibling helper \<open>calculateLastMonthExpiry\<close> steps back with
  \<open>shiftToPreviousMonth\<close>, which compares the day with the length of the earlier
  month before it builds the date: for the anchor day 31 and the clock at noon of
  1 March 2024 it answers 29 February.
\<close>

lemma calculateLastMonthExpiry_clamps:
  "calculateLastMonthExpiry UTC (time_Date 2024 3 31 UTC) (time_Date 2024 3 1 UTC + 12 * Hour)
     = time_Date 2024 2 29 UTC"
  by code_simp

text \<open>
  Claim C1. For the expiry anchor 2024-03-31, no \<open>reset_day\<close> and the clock at
  2024-04-15, the specification expects the window from 2024-03-31 to 2024-04-30, the
  current-month candidate being the anchor day clamped to the length of April. The
  program builds the candidate with \<open>time.Date(2024, April, 31, ...)\<close>, which is
  1 May: the last reset is 2024-03-31 as expected, the next reset is 2024-05-01 and not
  2024-04-30.
\<close>

theorem C1_window_at_2024_04_15:
  "cycleWindow UTC (time_Date 2024 4 15 UTC) [(''expiry'', ''2024-03-31'')]
     = Inr \<lparr> lastResetDate = time_Date 2024 3 31 UTC,
             nextResetDate = time_Date 2024 5 1 UTC,
             durationStr = ''15d'',
             resetDateStr = ''2024-05-01'' \<rparr>
   \<and> time_Date 2024 5 1 UTC \<noteq> time_Date 2024 4 30 UTC"
  by code_simp

text \<open>
  Claim C2. The specification expects \<open>lastResetAt \<le> now < nextResetAt\<close> for every
  anchor day from 1 to 31 and every clock. With the anchor day 31 (here from the
  \<open>reset_day\<close> label) and the clock at noon of 1 March 2024, the candidate 31 March is
  still ahead, the program steps back to \<open>time.Date(2024, February, 31, ...)\<close>, which
  is 2 March, and its clamp looks at the length of March: the last reset it reports lies
  after the clock.
\<close>

theorem C2_last_reset_after_now:
  "cycleWindow UTC (time_Date 2024 3 1 UTC + 12 * Hour)
       [(''expiry'', ''2025-01-31''), (''reset_day'', ''2024-01-31'')]
     = Inr \<lparr> lastResetDate = time_Date 2024 3 2 UTC,
             nextResetDate = time_Date 2024 3 31 UTC,
             durationStr = ''1d'',
             resetDateStr = ''2024-03-31'' \<rparr>
   \<and> time_Date 2024 3 1 UTC + 12 * Hour < time_Date 2024 3 2 UTC"
  by code_simp

text \<open>
  With the local zone at UTC a candidate that equals the clock is taken as the last
  reset: the candidate is a whole number of days from the zero time, so truncating the
  clock to 24 hours gives the candidate back.
\<close>

lemma lastReset_boundary_UTC:
  assumes "time_Date (Year UTC now) (Month UTC now) d UTC = now"
  shows "lastReset UTC now d = now"
proof -
  have "time_Date (Year UTC now) (Month UTC now) d UTC mod nsPerDay = 0"
    by (simp add: time_Date_def Let_def UTC_def)
  then have "now mod nsPerDay = 0"
    using assms by simp
  then have "(now + unixEpochDay * nsPerDay) mod nsPerDay = 0"
    by simp
  then have "Truncate now (24 * Hour) = now"
    using nsPerDay_pos by (simp add: Truncate_def day_is_24_hours)
  then show ?thesis
    using assms by (simp add: lastReset_def Let_def)
qed

text \<open>
  Claim C5. A candidate that falls exactly at the clock, the clock being midnight of
  that day, is to count as past. The program tests
  \<open>candidate.Equal(now.Truncate(24 * time.Hour))\<close>; \<open>Truncate\<close> rounds to midnight
  UTC, the candidate is midnight of \<open>time.Local\<close>. In a zone eight hours east of UTC,
  with the anchor day 15 and the clock at local midnight of 15 April 2024, the candidate
  equals the clock and is not taken: the last reset is 15 March.
\<close>

theorem C5_boundary_in_local_zone:
  "time_Date (Year (8 * 3600) (time_Date 2024 4 15 (8 * 3600)))
             (Month (8 * 3600) (time_Date 2024 4 15 (8 * 3600))) 15 (8 * 3600)
     = time_Date 2024 4 15 (8 * 3600)
   \<and> cycleWindow (8 * 3600) (time_Date 2024 4 15 (8 * 3600)) [(''expiry'', ''2024-03-15'')]
     = Inr \<lparr> lastResetDate = time_Date 2024 3 15 (8 * 3600),
             nextResetDate = time_Date 2024 5 15 (8 * 3600),
             durationStr = ''31d'',
             resetDateStr = ''2024-05-15'' \<rparr>
   \<and> time_Date 2024 3 15 (8 * 3600) \<noteq> time_Date 2024 4 15 (8 * 3600)"
  by code_simp

section \<open>The label-matcher builder on a label set with a reset day\<close>

text \<open>
  Claim C4. No bookkeeping key is to reach the filter expression, \<open>reset_day\<close>
  included. The builder skips \<open>__name__\<close>, \<open>expiry\<close>, \<open>price\<close>, \<open>info\<close>,
  \<open>cycle\<close>, \<open>job\<close> and \<open>cpu\<close>; \<open>reset_day\<close>, which \<open>GetInstanceInfo\<close> reads
  next to \<open>expiry\<close>, is not in that list and comes out as a term of the filter.
\<close>

theorem C4_reset_day_in_filter:
  "bookkeeping ''reset_day'' \<and>
   BuildLabelMatchers [(''instance'', ''host1:9100''), (''expiry'', ''2024-03-31''),
                       (''reset_day'', ''2024-03-15'')]
     = matcher ''instance'' ''host1:9100'' @ '','' @ matcher ''reset_day'' ''2024-03-15''"
  by (simp add: bookkeeping_def BuildLabelMatchers_def skipped_def matcher_def
                strings_HasSuffix_def)

section \<open>Scalar extraction\<close>

text \<open>The parts of the extraction that are total: the instant extraction on every
  value, the range extraction on every value but a matrix whose first series is empty.\<close>

lemma GetFloatFromPromResult_cases:
  "GetFloatFromPromResult (ValVector []) = 0 \<and>
   GetFloatFromPromResult (ValVector (x # xs)) = x \<and>
   GetFloatFromPromResult (ValScalar s) = 0 \<and>
   GetFloatFromPromResult (ValMatrix m) = 0 \<and>
   GetFloatFromPromResult (ValString str) = 0"
  by (simp add: GetFloatFromPromResult_def)

lemma QueryRange_cases:
  assumes "api_QueryRange c query start end step = Inr v"
  shows "v = ValMatrix [] \<Longrightarrow> QueryRange c query now start end step = Ok 0"
    and "v = ValVector xs \<Longrightarrow> QueryRange c query now start end step = Ok 0"
    and "v = ValMatrix (series # rest) \<Longrightarrow> series \<noteq> [] \<Longrightarrow>
           QueryRange c query now start end step = Ok (last series)"
  using assms by (auto simp: QueryRange_def last_conv_nth nat_diff_distrib' split: list.splits)

text \<open>
  Claim C9. Scalar extraction is never to fail. The range extraction guards the number
  of series and then reads \<open>Values[len(Values) - 1]\<close> of the first one; on a matrix
  whose first series carries no sample the index is \<open>-1\<close> and the program panics.
\<close>

theorem C9_range_extraction_panics:
  "QueryRange emptySeriesBackend ''up'' (time_Date 2024 4 15 UTC)
       (time_Date 2024 4 14 UTC) (time_Date 2024 4 15 UTC + (- Second)) (Hour * 24)
     = Panic ''index out of range [-1]''"
  by (simp add: QueryRange_def emptySeriesBackend_def)

section \<open>Digits and fixed-point rendering\<close>

lemma digit_nth: "k < 10 \<Longrightarrow> is_digit (digit_chars ! k)"
  unfolding is_digit_def by (rule nth_mem) (simp add: digit_chars_def)

lemma dec_nonempty: "dec n \<noteq> []"
  by (subst dec.simps) simp

lemma dec_digits: "list_all is_digit (dec n)"
proof (induction n rule: dec.induct)
  case (1 n)
  show ?case
  proof (cases "n < 10")
    case True
    then show ?thesis by (subst dec.simps) (simp add: digit_nth)
  next
    case False
    then show ?thesis using 1 by (subst dec.simps) (simp add: digit_nth)
  qed
qed

lemma dec_small: "n < 10 \<Longrightarrow> length (dec n) = 1"
  by (subst dec.simps) simp

lemma dec_length_2: "n < 100 \<Longrightarrow> length (dec n) \<le> 2"
  by (subst dec.simps) (simp add: dec_small)

text \<open>Whatever the value, \<open>%.2f\<close> prints an optional sign, at least one digit, a point
  and exactly two digits.\<close>

lemma fmt_f_2_shape:
  "\<exists>ip fp. fmt_f 2 x = (if x < 0 then ''-'' else []) @ ip @ ''.'' @ fp
           \<and> ip \<noteq> [] \<and> list_all is_digit ip \<and> length fp = 2 \<and> list_all is_digit fp"
proof -
  define n where "n = round_half_even (\<bar>x\<bar> * 10 ^ 2)"
  define ip where "ip = dec (n div 10 ^ 2)"
  define fp where "fp = replicate (2 - length (dec (n mod 10 ^ 2))) CHR ''0'' @ dec (n mod 10 ^ 2)"
  have "fmt_f 2 x = (if x < 0 then ''-'' else []) @ ip @ ''.'' @ fp"
    by (simp add: fmt_f_def Let_def n_def ip_def fp_def)
  moreover have "ip \<noteq> []" "list_all is_digit ip"
    by (simp_all add: ip_def dec_nonempty dec_digits)
  moreover have "length (dec (n mod 10 ^ 2)) \<le> 2"
    by (rule dec_length_2) simp
  then have "length fp = 2"
    by (simp add: fp_def)
  moreover have "is_digit CHR ''0''"
    by (simp add: is_digit_def digit_chars_def)
  then have "list_all is_digit fp"
    using dec_digits [of "n mod 10 ^ 2"] by (auto simp: fp_def list_all_iff)
  ultimately show ?thesis by blast
qed

section \<open>Rounding to float64\<close>

















section \<open>The duration formatter\<close>

lemma Hour_pos: "0 < Hour"
  by (simp add: Hour_def Minute_def Second_def)
















text \<open>Floors and ceilings of quotients of numerals, for the evaluation of \<open>float64\<close>
  on numbers.\<close>

lemma floor_rat_numeral: "\<lfloor>numeral a / numeral b :: rat\<rfloor> = numeral a div numeral b"
  by (metis floor_divide_of_int_eq of_int_numeral)

lemma ceiling_rat_numeral: "\<lceil>numeral a / numeral b :: rat\<rceil> = - (- numeral a div numeral b)"
  by (metis ceiling_def divide_minus_left floor_divide_of_int_eq of_int_neg_numeral of_int_numeral)



text \<open>
  Claim C6 as stated, for every non-negative duration, fails on a duration of many hours
  with a fraction of a second: one nanosecond short of 171 days the whole hours are 4103,
  which make 170 whole days, the sum \<open>4103 + 3599999999999 / 3600000000000\<close> is rounded
  to the float \<open>4104\<close>, and the text is \<open>171d\<close>.
\<close>

theorem C6_days_rounded_up:
  "(0 :: int) \<le> 14774399999999999
   \<and> formatDuration 14774399999999999 = ''171d''
   \<and> fmt_d (14774399999999999 div Hour div 24) @ ''d'' = ''170d''
   \<and> Hours64 14774399999999999 = 4104"
  by (simp add: formatDuration_def Hours64_def float64_def binade_def bit_length.simps
        round_to_even_def go_quot_def go_rem_def go_int_def Hour_def Minute_def Second_def
        fmt_d_def dec.simps digit_chars_def Let_def floor_rat_numeral ceiling_rat_numeral)

text \<open>The exact number of hours is the quotient by the hour.\<close>

lemma Hours_exact: "Hours d = of_int d / of_int Hour"
  by (simp add: Hours_def go_rem_def Hour_def Minute_def Second_def field_simps)

section \<open>The byte formatter\<close>

lemma FormatBytes_spec_unit:
  "FormatBytes b = fmt_f 2 (b / snd (spec_unit b)) @ '' '' @ fst (spec_unit b)"
  by (simp add: FormatBytes_def spec_unit_def KB_def MB_def GB_def TB_def)

lemma spec_unit_pos: "0 < snd (spec_unit b)"
  by (simp add: spec_unit_def)

lemma FormatBytes_examples:
  "FormatBytes 1023 = ''1023.00 B'' \<and> FormatBytes 1024 = ''1.00 KiB''
   \<and> FormatBytes 1073741824 = ''1.00 GiB''"
  by (simp add: FormatBytes_def KB_def MB_def GB_def TB_def fmt_f_def round_half_even_def
        dec.simps digit_chars_def)

text \<open>
  Claim C7. \<open>FormatBytes\<close> picks its unit by the binary thresholds of the
  specification (TiB from \<open>2^40\<close>, GiB from \<open>2^30\<close>, MiB from \<open>2^20\<close>, KiB from
  \<open>2^10\<close>, B below), divides by the unit and prints the quotient with exactly two
  decimals; a value below 1024 is printed in bytes; 1023, 1024 and 1073741824 read
  \<open>1023.00 B\<close>, \<open>1.00 KiB\<close> and \<open>1.00 GiB\<close>.
\<close>

theorem FormatBytes_units:
  "FormatBytes b = fmt_f 2 (b / snd (spec_unit b)) @ '' '' @ fst (spec_unit b)
   \<and> (\<exists>ip fp. fmt_f 2 (b / snd (spec_unit b)) = (if b < 0 then ''-'' else []) @ ip @ ''.'' @ fp
         \<and> ip \<noteq> [] \<and> list_all is_digit ip \<and> length fp = 2 \<and> list_all is_digit fp)
   \<and> (b < 1024 \<longrightarrow> FormatBytes b = fmt_f 2 b @ '' B'')
   \<and> FormatBytes 1023 = ''1023.00 B'' \<and> FormatBytes 1024 = ''1.00 KiB''
   \<and> FormatBytes 1073741824 = ''1.00 GiB''"
proof -
  have sgn: "(b / snd (spec_unit b) < 0) = (b < 0)"
    using spec_unit_pos [of b] by (simp add: divide_less_0_iff)
  have shape: "\<exists>ip fp. fmt_f 2 (b / snd (spec_unit b)) = (if b < 0 then ''-'' else []) @ ip @ ''.'' @ fp
         \<and> ip \<noteq> [] \<and> list_all is_digit ip \<and> length fp = 2 \<and> list_all is_digit fp"
    using fmt_f_2_shape [of "b / snd (spec_unit b)"] unfolding sgn .
  have small: "b < 1024 \<longrightarrow> FormatBytes b = fmt_f 2 b @ '' B''"
    by (simp add: FormatBytes_def KB_def MB_def GB_def TB_def)
  show ?thesis
    by (intro conjI FormatBytes_spec_unit shape small
          FormatBytes_examples [THEN conjunct1]
          FormatBytes_examples [THEN conjunct2, THEN conjunct1]
          FormatBytes_examples [THEN conjunct2, THEN conjunct2])
qed

text \<open>The value 1023 lies below 1024 and is printed in bytes.\<close>

theorem FormatBytes_units_witness:
  "(1023::rat) < 1024 \<and> FormatBytes 1023 = fmt_f 2 1023 @ '' B'' \<and> fmt_f 2 1023 = ''1023.00''"
proof -
  have "fmt_f 2 1023 = ''1023.00''"
    by (simp add: fmt_f_def round_half_even_def dec.simps digit_chars_def)
  then show ?thesis
    using FormatBytes_units [of 1023, THEN conjunct2, THEN conjunct2, THEN conjunct1] by simp
qed

section \<open>The label-matcher builder\<close>

lemma matcherLoop_filter:
  "matcherLoop labels acc
     = acc @ map (\<lambda>(k, v). matcher k v) (filter (\<lambda>(k, v). \<not> skipped k) labels)"
  by (induction labels arbitrary: acc) auto

lemma strings_Join_nonempty: "xs \<noteq> [] \<Longrightarrow> last xs \<noteq> [] \<Longrightarrow> strings_Join xs sep \<noteq> []"
  by (induction xs sep rule: strings_Join.induct) auto

lemma strings_Join_last:
  "xs \<noteq> [] \<Longrightarrow> last xs \<noteq> [] \<Longrightarrow> last (strings_Join xs sep) = last (last xs)"
proof (induction xs sep rule: strings_Join.induct)
  case (3 x y ys sep)
  then have "strings_Join (y # ys) sep \<noteq> []"
    by (intro strings_Join_nonempty) auto
  with 3 show ?case by simp
qed auto

lemma HasSuffix_single: "strings_HasSuffix s [c] = (s \<noteq> [] \<and> last s = c)"
proof (cases s rule: rev_cases)
  case Nil
  then show ?thesis by (simp add: strings_HasSuffix_def)
next
  case (snoc ys y)
  then show ?thesis by (auto simp: strings_HasSuffix_def)
qed

lemma matcher_last: "matcher k v \<noteq> [] \<and> last (matcher k v) = CHR 0x22"
  by (simp add: matcher_def)

text \<open>Every term ends with a double quote, so the joined text never ends with a comma
  and the final trimming of \<open>BuildLabelMatchers\<close> changes nothing.\<close>

lemma no_trailing_comma:
  assumes "\<forall>x \<in> set xs. x \<noteq> [] \<and> last x = CHR 0x22"
  shows "\<not> strings_HasSuffix (strings_Join xs '','') '',''"
proof (cases "xs = []")
  case True
  then show ?thesis by (simp add: strings_HasSuffix_def)
next
  case False
  then have l: "last xs \<noteq> [] \<and> last (last xs) = CHR 0x22"
    using assms by simp
  then have "last (strings_Join xs '','') = CHR 0x22"
    using False by (simp add: strings_Join_last)
  then show ?thesis
    by (simp add: HasSuffix_single)
qed

lemma skipped_iff:
  "skipped k = (k \<in> {''__name__'', ''expiry'', ''price'', ''info'', ''cycle'', ''job'', ''cpu''})"
  by (simp add: skipped_def)

lemma strings_Join_contains:
  "x \<in> set xs \<Longrightarrow> \<exists>pre post. strings_Join xs sep = pre @ x @ post"
proof (induction xs sep rule: strings_Join.induct)
  case (1 sep)
  then show ?case by simp
next
  case (2 y sep)
  then have "strings_Join [y] sep = [] @ x @ []" by simp
  then show ?case by blast
next
  case (3 y z zs sep)
  show ?case
  proof (cases "x = y")
    case True
    then have "strings_Join (y # z # zs) sep = [] @ x @ (sep @ strings_Join (z # zs) sep)"
      by simp
    then show ?thesis by blast
  next
    case False
    then have "x \<in> set (z # zs)" using 3(2) by simp
    then obtain pre post where "strings_Join (z # zs) sep = pre @ x @ post"
      using 3(1) by blast
    then have "strings_Join (y # z # zs) sep = (y @ sep @ pre) @ x @ post"
      by simp
    then show ?thesis by blast
  qed
qed

lemma matcher_text: "(\<lambda>(k, v). matcher k v) = (\<lambda>(k, v). k @ ''='' @ [CHR 0x22] @ v @ [CHR 0x22])"
  by (simp add: matcher_def)

text \<open>
  Claim C8. The builder returns the terms \<open>key="value"\<close> of the entries of the label
  set (the key, an equals sign, and the value between double quotes), joined by commas,
  of exactly those entries whose key is none of \<open>__name__\<close>, \<open>expiry\<close>,
  \<open>price\<close>, \<open>info\<close>, \<open>cycle\<close>, \<open>job\<close>, \<open>cpu\<close>: no entry with one of
  these keys gives a term, and the term of every other entry stands in the result. A
  label set with only such keys gives the empty text.
\<close>

theorem BuildLabelMatchers_excludes_exactly:
  "BuildLabelMatchers labels
     = strings_Join (map (\<lambda>(k, v). k @ ''='' @ [CHR 0x22] @ v @ [CHR 0x22])
         (filter (\<lambda>(k, v). k \<notin> {''__name__'', ''expiry'', ''price'', ''info'', ''cycle'', ''job'', ''cpu''})
            labels)) '',''
   \<and> ((\<forall>(k, v) \<in> set labels. k \<in> {''__name__'', ''expiry'', ''price'', ''info'', ''cycle'', ''job'', ''cpu''})
        \<longrightarrow> BuildLabelMatchers labels = [])
   \<and> (\<forall>(k, v) \<in> set labels. k \<notin> {''__name__'', ''expiry'', ''price'', ''info'', ''cycle'', ''job'', ''cpu''}
        \<longrightarrow> (\<exists>pre post. BuildLabelMatchers labels = pre @ k @ ''='' @ [CHR 0x22] @ v @ [CHR 0x22] @ post))"
proof -
  let ?kept = "filter (\<lambda>(k, v). \<not> skipped k) labels"
  let ?ts = "map (\<lambda>(k, v). matcher k v) ?kept"
  have "\<forall>x \<in> set ?ts. x \<noteq> [] \<and> last x = CHR 0x22"
    using matcher_last by auto
  then have "\<not> strings_HasSuffix (strings_Join ?ts '','') '',''"
    by (rule no_trailing_comma)
  then have eq: "BuildLabelMatchers labels = strings_Join ?ts '',''"
    by (simp add: BuildLabelMatchers_def matcherLoop_filter Let_def)
  have none: "(\<forall>(k, v) \<in> set labels. skipped k) \<Longrightarrow> ?kept = []"
    by (auto simp: filter_empty_conv)
  have every: "\<exists>pre post. BuildLabelMatchers labels = pre @ k @ ''='' @ [CHR 0x22] @ v @ [CHR 0x22] @ post"
    if "(k, v) \<in> set labels" "\<not> skipped k" for k v
  proof -
    have "matcher k v \<in> set ?ts"
      using that by force
    then obtain pre post where "strings_Join ?ts '','' = pre @ matcher k v @ post"
      using strings_Join_contains by blast
    then have "BuildLabelMatchers labels = pre @ k @ ''='' @ [CHR 0x22] @ v @ [CHR 0x22] @ post"
      using eq by (simp add: matcher_def)
    then show ?thesis by blast
  qed
  have f: "(\<lambda>(k, v). \<not> skipped k)
        = (\<lambda>(k, v). k \<notin> {''__name__'', ''expiry'', ''price'', ''info'', ''cycle'', ''job'', ''cpu''})"
    by (simp only: skipped_iff)
  have a: "BuildLabelMatchers labels
       = strings_Join (map (\<lambda>(k, v). k @ ''='' @ [CHR 0x22] @ v @ [CHR 0x22])
           (filter (\<lambda>(k, v). k \<notin> {''__name__'', ''expiry'', ''price'', ''info'', ''cycle'', ''job'', ''cpu''})
              labels)) '',''"
    using eq by (simp only: f matcher_text)
  have b: "(\<forall>(k, v) \<in> set labels. k \<in> {''__name__'', ''expiry'', ''price'', ''info'', ''cycle'', ''job'', ''cpu''})
        \<longrightarrow> BuildLabelMatchers labels = []"
  proof
    assume "\<forall>(k, v) \<in> set labels. k \<in> {''__name__'', ''expiry'', ''price'', ''info'', ''cycle'', ''job'', ''cpu''}"
    then have "\<forall>(k, v) \<in> set labels. skipped k"
      by (simp only: skipped_iff)
    then show "BuildLabelMatchers labels = []"
      using eq none by simp
  qed
  have c: "\<forall>(k, v) \<in> set labels. k \<notin> {''__name__'', ''expiry'', ''price'', ''info'', ''cycle'', ''job'', ''cpu''}
        \<longrightarrow> (\<exists>pre post. BuildLabelMatchers labels = pre @ k @ ''='' @ [CHR 0x22] @ v @ [CHR 0x22] @ post)"
  proof (rule ballI)
    fix x
    assume x: "x \<in> set labels"
    obtain k v where kv: "x = (k, v)"
      by (cases x)
    have "k \<notin> {''__name__'', ''expiry'', ''price'', ''info'', ''cycle'', ''job'', ''cpu''}
        \<longrightarrow> (\<exists>pre post. BuildLabelMatchers labels = pre @ k @ ''='' @ [CHR 0x22] @ v @ [CHR 0x22] @ post)"
    proof
      assume "k \<notin> {''__name__'', ''expiry'', ''price'', ''info'', ''cycle'', ''job'', ''cpu''}"
      then have "\<not> skipped k"
        by (simp only: skipped_iff not_False_eq_True)
      with x kv show "\<exists>pre post. BuildLabelMatchers labels = pre @ k @ ''='' @ [CHR 0x22] @ v @ [CHR 0x22] @ post"
        using every [of k v] by simp
    qed
    then show "case x of (k, v) \<Rightarrow>
        k \<notin> {''__name__'', ''expiry'', ''price'', ''info'', ''cycle'', ''job'', ''cpu''}
        \<longrightarrow> (\<exists>pre post. BuildLabelMatchers labels = pre @ k @ ''='' @ [CHR 0x22] @ v @ [CHR 0x22] @ post)"
      by (simp only: kv prod.case)
  qed
  show ?thesis
    by (intro conjI a b c)
qed

text \<open>A label set of excluded keys only gives the empty filter; a mixed one keeps
  \<open>instance\<close> and \<open>device\<close> and drops \<open>cpu\<close>.\<close>

theorem BuildLabelMatchers_excludes_exactly_witness:
  "BuildLabelMatchers [(''expiry'', ''2024-03-31''), (''price'', ''5''), (''job'', ''node'')] = []
   \<and> BuildLabelMatchers [(''instance'', ''a''), (''cpu'', ''0''), (''device'', ''eth0'')]
       = ''instance='' @ [CHR 0x22] @ ''a'' @ [CHR 0x22] @ '',device='' @ [CHR 0x22] @ ''eth0'' @ [CHR 0x22]"
  using BuildLabelMatchers_excludes_exactly [of "[(''expiry'', ''2024-03-31''), (''price'', ''5''), (''job'', ''node'')]", THEN conjunct2, THEN conjunct1]
        BuildLabelMatchers_excludes_exactly [of "[(''instance'', ''a''), (''cpu'', ''0''), (''device'', ''eth0'')]", THEN conjunct1]
  by simp

section \<open>The range window of the cycle-traffic query\<close>

lemma days_floor: "\<lfloor>Hours d / 24\<rfloor> = d div (24 * Hour)"
proof -
  have "Hours d / 24 = of_int d / of_int (24 * Hour)"
    by (simp add: Hours_exact)
  then show ?thesis by (simp only: floor_divide_of_int_eq)
qed

lemma go_int_of_int: "go_int (of_int k) = k"
  by (simp add: go_int_def)

text \<open>The day count is the absolute value of the floor, not the floor of the absolute
  value.\<close>

lemma calculateDaysDifference_eq:
  "calculateDaysDifference now lastMonthExpiry = \<bar>(now - lastMonthExpiry) div (24 * Hour)\<bar>"
  by (simp add: calculateDaysDifference_def days_floor go_int_of_int Let_def)

lemma cycleWindow_duration:
  assumes "cycleWindow loc now labels = Inr w"
  shows "durationStr w = cycleDuration now (lastResetDate w)"
  using assms by (auto simp: cycleWindow_def mkWindow_def split: sum.splits if_splits)

lemma formatDuration_zero: "formatDuration 0 = ''0h''"
  by code_simp

text \<open>
  Claim C10, as the program has it. The range-window text of the cycle-traffic query is
  \<open>formatDuration\<close> of 24 hours times the absolute value of the floor of
  \<open>(now - lastResetDate) / 24h\<close>. Whenever the last reset is not after the clock this
  is 24 hours times the floor of \<open>|now - lastResetDate| / 24h\<close>, the elapsed time cut
  to whole days, and for a clock less than 24 hours after the last reset the text is
  \<open>0h\<close>.
\<close>

theorem cycle_query_window_whole_days:
  assumes "cycleWindow loc now labels = Inr w"
  shows "durationStr w = formatDuration (24 * Hour * \<bar>(now - lastResetDate w) div (24 * Hour)\<bar>)
   \<and> (lastResetDate w \<le> now \<longrightarrow>
        durationStr w = formatDuration (24 * Hour * (\<bar>now - lastResetDate w\<bar> div (24 * Hour))))
   \<and> (lastResetDate w \<le> now \<and> now - lastResetDate w < 24 * Hour \<longrightarrow> durationStr w = ''0h'')"
proof -
  have a: "durationStr w = formatDuration (24 * Hour * \<bar>(now - lastResetDate w) div (24 * Hour)\<bar>)"
    by (simp add: cycleWindow_duration [OF assms] cycleDuration_def calculateDaysDifference_eq
          ac_simps)
  have b: "lastResetDate w \<le> now \<Longrightarrow>
             \<bar>(now - lastResetDate w) div (24 * Hour)\<bar> = \<bar>now - lastResetDate w\<bar> div (24 * Hour)"
    using Hour_pos by (simp add: pos_imp_zdiv_nonneg_iff)
  have c: "lastResetDate w \<le> now \<and> now - lastResetDate w < 24 * Hour \<Longrightarrow>
             (now - lastResetDate w) div (24 * Hour) = 0"
    by (simp add: div_pos_pos_trivial)
  show ?thesis
    using a b c formatDuration_zero by simp
qed

lemma exampleWindow:
  "cycleWindow UTC (time_Date 2024 4 15 UTC) exampleLabels
     = Inr \<lparr> lastResetDate = time_Date 2024 3 31 UTC, nextResetDate = time_Date 2024 5 1 UTC,
             durationStr = ''15d'', resetDateStr = ''2024-05-01'' \<rparr>"
  by code_simp

text \<open>Five hours after the reset of 31 March 2024 the window text is \<open>0h\<close>.\<close>

theorem cycle_query_window_whole_days_witness:
  "cycleWindow UTC (time_Date 2024 3 31 UTC + 5 * Hour) exampleLabels
     = Inr \<lparr> lastResetDate = time_Date 2024 3 31 UTC, nextResetDate = time_Date 2024 5 1 UTC,
             durationStr = ''0h'', resetDateStr = ''2024-05-01'' \<rparr>
   \<and> time_Date 2024 3 31 UTC \<le> time_Date 2024 3 31 UTC + 5 * Hour
   \<and> time_Date 2024 3 31 UTC + 5 * Hour - time_Date 2024 3 31 UTC < 24 * Hour
   \<and> formatDuration (24 * Hour *
        (\<bar>time_Date 2024 3 31 UTC + 5 * Hour - time_Date 2024 3 31 UTC\<bar> div (24 * Hour))) = ''0h''"
proof -
  have w: "cycleWindow UTC (time_Date 2024 3 31 UTC + 5 * Hour) exampleLabels
     = Inr \<lparr> lastResetDate = time_Date 2024 3 31 UTC, nextResetDate = time_Date 2024 5 1 UTC,
             durationStr = ''0h'', resetDateStr = ''2024-05-01'' \<rparr>"
    by code_simp
  have h: "(0::int) \<le> 5 * Hour \<and> 5 * Hour < 24 * Hour"
    by (simp add: Hour_def Minute_def Second_def)
  show ?thesis
    using cycle_query_window_whole_days [OF w] h by (simp add: w)
qed

text \<open>
  Claim C10 as stated fails where the last reset lies after the clock: with the anchor
  day 31 and the clock at noon of 1 March 2024 the last reset is 2 March, the program
  asks for the window \<open>1d\<close>, and 24 hours times the floor of
  \<open>|now - lastResetDate| / 24h\<close> is \<open>0h\<close>.
\<close>

theorem C10_window_differs_from_formula:
  "cycleWindow UTC (time_Date 2024 3 1 UTC + 12 * Hour) [(''expiry'', ''2024-01-31'')]
     = Inr \<lparr> lastResetDate = time_Date 2024 3 2 UTC, nextResetDate = time_Date 2024 3 31 UTC,
             durationStr = ''1d'', resetDateStr = ''2024-03-31'' \<rparr>
   \<and> formatDuration (24 * Hour *
        (\<bar>time_Date 2024 3 1 UTC + 12 * Hour - time_Date 2024 3 2 UTC\<bar> div (24 * Hour))) = ''0h''"
  by code_simp

section \<open>The instance report: fatal and best-effort fetches\<close>

lemma cycleWindow_Inr_parse:
  "cycleWindow loc now labels = Inr w \<Longrightarrow> \<exists>t. time_Parse (label labels ''expiry'') = Inr t"
  by (auto simp: cycleWindow_def split: sum.splits)

text \<open>The window exists exactly when the expiry date parses and the reset day is
  absent or parses.\<close>

lemma cycleWindow_ok_iff:
  "(\<exists>w. cycleWindow loc now labels = Inr w) =
   ((\<exists>t. time_Parse (label labels ''expiry'') = Inr t) \<and>
    (label labels ''reset_day'' = [] \<or> (\<exists>t. time_Parse (label labels ''reset_day'') = Inr t)))"
  by (auto simp: cycleWindow_def split: sum.splits)

lemma GetInstanceInfo_Ok:
  assumes "cycleWindow loc now labels = Inr window"
      and "queryTrafficForDuration c labels (durationStr window) now = Inr reset"
      and "GetNaturalMonthTraffic c loc labels now = Inr month"
      and "GetYesterdayTraffic c loc labels now = Ok yday"
      and "GetDailyTraffic c loc labels now = Inr daily"
  shows "\<exists>info. GetInstanceInfo c loc now labels = Ok info"
proof -
  obtain t where "time_Parse (label labels ''expiry'') = Inr t"
    using assms(1) cycleWindow_Inr_parse by blast
  then show ?thesis
    using assms by (simp add: GetInstanceInfo_def Let_def)
qed

lemma GetInstanceInfo_Ok_only:
  assumes "GetInstanceInfo c loc now labels = Ok info"
  shows "\<exists>window reset month yday daily.
           cycleWindow loc now labels = Inr window
         \<and> queryTrafficForDuration c labels (durationStr window) now = Inr reset
         \<and> GetNaturalMonthTraffic c loc labels now = Inr month
         \<and> GetYesterdayTraffic c loc labels now = Ok yday
         \<and> GetDailyTraffic c loc labels now = Inr daily"
  using assms
  by (simp add: GetInstanceInfo_def Let_def split: sum.splits result.splits)

lemma GetInstanceInfo_fields:
  assumes "GetInstanceInfo c loc now labels = Ok info"
      and "cycleWindow loc now labels = Inr window"
  shows "((\<exists>e. queryNodeBootTime c labels now = Inl e) \<longrightarrow> bootTime info = [])
       \<and> ((\<exists>e. QueryNetworkRate c labels now = Inl e) \<longrightarrow> networkRate info = (0, 0))
       \<and> ((\<exists>e. FetchResourceMetrics c labels (durationStr window) now = Inl e)
            \<longrightarrow> resources info = noResourceMetrics)"
  using assms
  by (auto simp: GetInstanceInfo_def Let_def split: sum.splits result.splits)

lemma queryNodeBootTime_query:
  "queryNodeBootTime c labels now =
     (case QueryPrometheus c (bootTimeQuery labels) now of
        Inl err \<Rightarrow> Inl (Errorf ''Failed to query node boot time'' err)
      | Inr bootTimeResult \<Rightarrow>
          (case bootTimeResult of
             ValVector (x # xs) \<Rightarrow>
               Inr (formatDuration (go_int (GetFloatFromPromResult bootTimeResult) * Second))
           | _ \<Rightarrow> Inr []))"
  by (simp add: queryNodeBootTime_def bootTimeQuery_def Let_def)

lemma QueryNetworkRate_queries:
  "QueryNetworkRate c labels now =
     (case QueryPrometheus c (uploadQuery labels) now of
        Inl err \<Rightarrow> Inl (Errorf ''Failed to query upload rate'' err)
      | Inr uploadResult \<Rightarrow>
          (case QueryPrometheus c (downloadQuery labels) now of
             Inl err \<Rightarrow> Inl (Errorf ''Failed to query download rate'' err)
           | Inr downloadResult \<Rightarrow>
               Inr (GetFloatFromPromResult uploadResult, GetFloatFromPromResult downloadResult)))"
  unfolding QueryNetworkRate_def uploadQuery_def downloadQuery_def Let_def ..

lemma FetchResourceMetrics_queries:
  "FetchResourceMetrics c labels duration now =
     (case QueryPrometheus c (cpuQuery labels duration) now of
        Inl err \<Rightarrow> Inl (Errorf ''Failed to query CPU usage'' err)
      | Inr cpuResult \<Rightarrow>
     (case QueryPrometheus c (memoryQuery labels) now of
        Inl err \<Rightarrow> Inl (Errorf ''Failed to query memory usage'' err)
      | Inr memoryResult \<Rightarrow>
     (case QueryPrometheus c (memTotalQuery labels) now of
        Inl err \<Rightarrow> Inl (Errorf ''Failed to query memory total'' err)
      | Inr memTotalResult \<Rightarrow>
     (case QueryPrometheus c (memAvailebleQuery labels) now of
        Inl err \<Rightarrow> Inl (Errorf ''Failed to query memory availeble'' err)
      | Inr memAvailebleResult \<Rightarrow>
     (case QueryPrometheus c (diskQuery labels) now of
        Inl err \<Rightarrow> Inl (Errorf ''Failed to query disk usage'' err)
      | Inr diskResult \<Rightarrow>
     (case QueryPrometheus c (diskTotalQuery labels) now of
        Inl err \<Rightarrow> Inl (Errorf ''Failed to query disk total'' err)
      | Inr diskTotalResult \<Rightarrow>
     (case QueryPrometheus c (diskAvailebleQuery labels) now of
        Inl err \<Rightarrow> Inl (Errorf ''Failed to query disk availeble'' err)
      | Inr diskAvailebleResult \<Rightarrow>
          Inr \<lparr> cpuUsage = GetFloatFromPromResult cpuResult,
                memoryUsage = GetFloatFromPromResult memoryResult,
                diskUsage = GetFloatFromPromResult diskResult,
                diskTotal = GetFloatFromPromResult diskTotalResult,
                diskAvaileble = GetFloatFromPromResult diskAvailebleResult,
                memTotal = GetFloatFromPromResult memTotalResult,
                memAvaileble = GetFloatFromPromResult memAvailebleResult \<rparr>)))))))"
  unfolding FetchResourceMetrics_def cpuQuery_def memoryQuery_def diskQuery_def diskTotalQuery_def
    diskAvailebleQuery_def memTotalQuery_def memAvailebleQuery_def Let_def ..

text \<open>A value without a first sample reads as zero.\<close>

lemma GetFloat_no_series:
  "\<forall>x xs. v \<noteq> ValVector (x # xs) \<Longrightarrow> GetFloatFromPromResult v = 0"
  by (auto simp: GetFloatFromPromResult_def split: Value.splits list.splits)

lemma QueryPrometheus_Inr: "api_Query c q t = Inr v \<Longrightarrow> QueryPrometheus c q t = Inr v"
  by (simp add: QueryPrometheus_def)

lemma boot_missing:
  assumes "api_Query c (bootTimeQuery labels) now = Inr v" "\<forall>x xs. v \<noteq> ValVector (x # xs)"
  shows "queryNodeBootTime c labels now = Inr []"
  using assms(2)
  by (auto simp: queryNodeBootTime_query QueryPrometheus_Inr [OF assms(1)]
           split: Value.splits list.splits)

lemma rate_upload_missing:
  assumes "api_Query c (uploadQuery labels) now = Inr v" "\<forall>x xs. v \<noteq> ValVector (x # xs)"
  shows "fst (case QueryNetworkRate c labels now of Inl err \<Rightarrow> (0, 0) | Inr r \<Rightarrow> r) = 0"
  by (simp add: QueryNetworkRate_queries QueryPrometheus_Inr [OF assms(1)]
        GetFloat_no_series [OF assms(2)] split: sum.splits)

lemma rate_download_missing:
  assumes "api_Query c (downloadQuery labels) now = Inr v" "\<forall>x xs. v \<noteq> ValVector (x # xs)"
  shows "snd (case QueryNetworkRate c labels now of Inl err \<Rightarrow> (0, 0) | Inr r \<Rightarrow> r) = 0"
  by (simp add: QueryNetworkRate_queries QueryPrometheus_Inr [OF assms(1)]
        GetFloat_no_series [OF assms(2)] split: sum.splits)

lemma resources_missing:
  fixes c labels duration now
  defines "res \<equiv> (case FetchResourceMetrics c labels duration now of
                     Inl err \<Rightarrow> noResourceMetrics | Inr m \<Rightarrow> m)"
  assumes "\<forall>x xs. v \<noteq> ValVector (x # xs)"
  shows "api_Query c (cpuQuery labels duration) now = Inr v \<Longrightarrow> cpuUsage res = 0"
    and "api_Query c (memoryQuery labels) now = Inr v \<Longrightarrow> memoryUsage res = 0"
    and "api_Query c (diskQuery labels) now = Inr v \<Longrightarrow> diskUsage res = 0"
    and "api_Query c (diskTotalQuery labels) now = Inr v \<Longrightarrow> diskTotal res = 0"
    and "api_Query c (diskAvailebleQuery labels) now = Inr v \<Longrightarrow> diskAvaileble res = 0"
    and "api_Query c (memTotalQuery labels) now = Inr v \<Longrightarrow> memTotal res = 0"
    and "api_Query c (memAvailebleQuery labels) now = Inr v \<Longrightarrow> memAvaileble res = 0"
  unfolding res_def
  by (simp_all add: FetchResourceMetrics_queries QueryPrometheus_Inr noResourceMetrics_def
        GetFloat_no_series [OF assms(2)] split: sum.splits)

lemma GetInstanceInfo_best_effort_fields:
  assumes "GetInstanceInfo c loc now labels = Ok info"
      and "cycleWindow loc now labels = Inr window"
  shows "bootTime info = (case queryNodeBootTime c labels now of Inl err \<Rightarrow> [] | Inr s \<Rightarrow> s)"
    and "networkRate info = (case QueryNetworkRate c labels now of Inl err \<Rightarrow> (0, 0) | Inr r \<Rightarrow> r)"
    and "resources info = (case FetchResourceMetrics c labels (durationStr window) now of
                             Inl err \<Rightarrow> noResourceMetrics | Inr m \<Rightarrow> m)"
  using assms
  by (auto simp: GetInstanceInfo_def Let_def split: sum.splits result.splits)

text \<open>
  Claim C3, as the program has it. \<open>GetInstanceInfo\<close> returns a report exactly when
  the window can be computed (the expiry date parses, and the reset day when there is
  one) and the four traffic fetches succeed: the cycle window, the natural month,
  yesterday and today so far. A failed uptime, network-rate or resource fetch never
  aborts the report: it leaves the uptime empty, the two rates zero, the seven resource
  values zero. A missing value does not abort it either: when the backend answers the
  query of the uptime, of a rate or of a resource value with a result that has no
  series, that value is empty or zero in the report.
\<close>

theorem GetInstanceInfo_fatal_and_best_effort:
  "((\<exists>info. GetInstanceInfo c loc now labels = Ok info) =
      (\<exists>window reset month yday daily.
           cycleWindow loc now labels = Inr window
         \<and> queryTrafficForDuration c labels (durationStr window) now = Inr reset
         \<and> GetNaturalMonthTraffic c loc labels now = Inr month
         \<and> GetYesterdayTraffic c loc labels now = Ok yday
         \<and> GetDailyTraffic c loc labels now = Inr daily))
   \<and> (\<forall>info window.
         GetInstanceInfo c loc now labels = Ok info \<and> cycleWindow loc now labels = Inr window
         \<longrightarrow> ((\<exists>e. queryNodeBootTime c labels now = Inl e) \<longrightarrow> bootTime info = [])
           \<and> ((\<exists>e. QueryNetworkRate c labels now = Inl e) \<longrightarrow> networkRate info = (0, 0))
           \<and> ((\<exists>e. FetchResourceMetrics c labels (durationStr window) now = Inl e)
                \<longrightarrow> resources info = noResourceMetrics)
           \<and> (\<forall>v. (\<forall>x xs. v \<noteq> ValVector (x # xs)) \<longrightarrow>
                 (api_Query c (bootTimeQuery labels) now = Inr v \<longrightarrow> bootTime info = [])
               \<and> (api_Query c (uploadQuery labels) now = Inr v \<longrightarrow> fst (networkRate info) = 0)
               \<and> (api_Query c (downloadQuery labels) now = Inr v \<longrightarrow> snd (networkRate info) = 0)
               \<and> (api_Query c (cpuQuery labels (durationStr window)) now = Inr v
                    \<longrightarrow> cpuUsage (resources info) = 0)
               \<and> (api_Query c (memoryQuery labels) now = Inr v \<longrightarrow> memoryUsage (resources info) = 0)
               \<and> (api_Query c (diskQuery labels) now = Inr v \<longrightarrow> diskUsage (resources info) = 0)
               \<and> (api_Query c (diskTotalQuery labels) now = Inr v \<longrightarrow> diskTotal (resources info) = 0)
               \<and> (api_Query c (diskAvailebleQuery labels) now = Inr v
                    \<longrightarrow> diskAvaileble (resources info) = 0)
               \<and> (api_Query c (memTotalQuery labels) now = Inr v \<longrightarrow> memTotal (resources info) = 0)
               \<and> (api_Query c (memAvailebleQuery labels) now = Inr v
                    \<longrightarrow> memAvaileble (resources info) = 0)))"
proof (intro conjI allI impI iffI)
  assume "\<exists>info. GetInstanceInfo c loc now labels = Ok info"
  then show "\<exists>window reset month yday daily.
           cycleWindow loc now labels = Inr window
         \<and> queryTrafficForDuration c labels (durationStr window) now = Inr reset
         \<and> GetNaturalMonthTraffic c loc labels now = Inr month
         \<and> GetYesterdayTraffic c loc labels now = Ok yday
         \<and> GetDailyTraffic c loc labels now = Inr daily"
    using GetInstanceInfo_Ok_only by blast
next
  assume "\<exists>window reset month yday daily.
           cycleWindow loc now labels = Inr window
         \<and> queryTrafficForDuration c labels (durationStr window) now = Inr reset
         \<and> GetNaturalMonthTraffic c loc labels now = Inr month
         \<and> GetYesterdayTraffic c loc labels now = Ok yday
         \<and> GetDailyTraffic c loc labels now = Inr daily"
  then show "\<exists>info. GetInstanceInfo c loc now labels = Ok info"
    using GetInstanceInfo_Ok by blast
next
  fix info window
  assume a: "GetInstanceInfo c loc now labels = Ok info \<and> cycleWindow loc now labels = Inr window"
  assume "\<exists>e. queryNodeBootTime c labels now = Inl e"
  then show "bootTime info = []"
    using a GetInstanceInfo_fields by blast
next
  fix info window
  assume a: "GetInstanceInfo c loc now labels = Ok info \<and> cycleWindow loc now labels = Inr window"
  assume "\<exists>e. QueryNetworkRate c labels now = Inl e"
  then show "networkRate info = (0, 0)"
    using a GetInstanceInfo_fields by blast
next
  fix info window
  assume a: "GetInstanceInfo c loc now labels = Ok info \<and> cycleWindow loc now labels = Inr window"
  assume "\<exists>e. FetchResourceMetrics c labels (durationStr window) now = Inl e"
  then show "resources info = noResourceMetrics"
    using a GetInstanceInfo_fields by blast
next
  fix info window v
  assume a: "GetInstanceInfo c loc now labels = Ok info \<and> cycleWindow loc now labels = Inr window"
     and v: "\<forall>x xs. v \<noteq> ValVector (x # xs)"
  assume "api_Query c (bootTimeQuery labels) now = Inr v"
  then show "bootTime info = []"
    using a v by (simp add: GetInstanceInfo_best_effort_fields(1) [of c loc now labels info window]
                    boot_missing)
next
  fix info window v
  assume a: "GetInstanceInfo c loc now labels = Ok info \<and> cycleWindow loc now labels = Inr window"
     and v: "\<forall>x xs. v \<noteq> ValVector (x # xs)"
  assume "api_Query c (uploadQuery labels) now = Inr v"
  then show "fst (networkRate info) = 0"
    using a v rate_upload_missing [of c labels now v]
    by (simp add: GetInstanceInfo_best_effort_fields(2) [of c loc now labels info window])
next
  fix info window v
  assume a: "GetInstanceInfo c loc now labels = Ok info \<and> cycleWindow loc now labels = Inr window"
     and v: "\<forall>x xs. v \<noteq> ValVector (x # xs)"
  assume "api_Query c (downloadQuery labels) now = Inr v"
  then show "snd (networkRate info) = 0"
    using a v rate_download_missing [of c labels now v]
    by (simp add: GetInstanceInfo_best_effort_fields(2) [of c loc now labels info window])
next
  fix info window v
  assume a: "GetInstanceInfo c loc now labels = Ok info \<and> cycleWindow loc now labels = Inr window"
     and v: "\<forall>x xs. v \<noteq> ValVector (x # xs)"
  assume "api_Query c (cpuQuery labels (durationStr window)) now = Inr v"
  then show "cpuUsage (resources info) = 0"
    using a resources_missing(1) [OF v]
    by (simp add: GetInstanceInfo_best_effort_fields(3) [of c loc now labels info window])
next
  fix info window v
  assume a: "GetInstanceInfo c loc now labels = Ok info \<and> cycleWindow loc now labels = Inr window"
     and v: "\<forall>x xs. v \<noteq> ValVector (x # xs)"
  assume "api_Query c (memoryQuery labels) now = Inr v"
  then show "memoryUsage (resources info) = 0"
    using a resources_missing(2) [OF v]
    by (simp add: GetInstanceInfo_best_effort_fields(3) [of c loc now labels info window])
next
  fix info window v
  assume a: "GetInstanceInfo c loc now labels = Ok info \<and> cycleWindow loc now labels = Inr window"
     and v: "\<forall>x xs. v \<noteq> ValVector (x # xs)"
  assume "api_Query c (diskQuery labels) now = Inr v"
  then show "diskUsage (resources info) = 0"
    using a resources_missing(3) [OF v]
    by (simp add: GetInstanceInfo_best_effort_fields(3) [of c loc now labels info window])
next
  fix info window v
  assume a: "GetInstanceInfo c loc now labels = Ok info \<and> cycleWindow loc now labels = Inr window"
     and v: "\<forall>x xs. v \<noteq> ValVector (x # xs)"
  assume "api_Query c (diskTotalQuery labels) now = Inr v"
  then show "diskTotal (resources info) = 0"
    using a resources_missing(4) [OF v]
    by (simp add: GetInstanceInfo_best_effort_fields(3) [of c loc now labels info window])
next
  fix info window v
  assume a: "GetInstanceInfo c loc now labels = Ok info \<and> cycleWindow loc now labels = Inr window"
     and v: "\<forall>x xs. v \<noteq> ValVector (x # xs)"
  assume "api_Query c (diskAvailebleQuery labels) now = Inr v"
  then show "diskAvaileble (resources info) = 0"
    using a resources_missing(5) [OF v]
    by (simp add: GetInstanceInfo_best_effort_fields(3) [of c loc now labels info window])
next
  fix info window v
  assume a: "GetInstanceInfo c loc now labels = Ok info \<and> cycleWindow loc now labels = Inr window"
     and v: "\<forall>x xs. v \<noteq> ValVector (x # xs)"
  assume "api_Query c (memTotalQuery labels) now = Inr v"
  then show "memTotal (resources info) = 0"
    using a resources_missing(6) [OF v]
    by (simp add: GetInstanceInfo_best_effort_fields(3) [of c loc now labels info window])
next
  fix info window v
  assume a: "GetInstanceInfo c loc now labels = Ok info \<and> cycleWindow loc now labels = Inr window"
     and v: "\<forall>x xs. v \<noteq> ValVector (x # xs)"
  assume "api_Query c (memAvailebleQuery labels) now = Inr v"
  then show "memAvaileble (resources info) = 0"
    using a resources_missing(7) [OF v]
    by (simp add: GetInstanceInfo_best_effort_fields(3) [of c loc now labels info window])
qed

lemma trafficOnly_traffic:
  "queryTrafficForDuration trafficOnlyBackend labels dur now = Inr (1024, 1024)"
  by (simp add: queryTrafficForDuration_def QueryPrometheus_def trafficOnlyBackend_def
        firstSample_def Let_def)

lemma trafficOnly_yesterday:
  "GetYesterdayTraffic trafficOnlyBackend loc labels now = Ok (2048, 2048)"
  by (simp add: GetYesterdayTraffic_def QueryRange_def trafficOnlyBackend_def Let_def)

lemma trafficOnly_boot:
  "queryNodeBootTime trafficOnlyBackend labels now
     = Inl (Errorf ''Failed to query node boot time''
             (Errorf ''Failed to query Prometheus'' (BackendError ''connection refused'')))"
  by (simp add: queryNodeBootTime_def QueryPrometheus_def trafficOnlyBackend_def Let_def)

lemma trafficOnly_rate:
  "QueryNetworkRate trafficOnlyBackend labels now
     = Inl (Errorf ''Failed to query upload rate''
             (Errorf ''Failed to query Prometheus'' (BackendError ''connection refused'')))"
  by (simp add: QueryNetworkRate_def QueryPrometheus_def trafficOnlyBackend_def Let_def)

lemma trafficOnly_resources:
  "FetchResourceMetrics trafficOnlyBackend labels dur now
     = Inl (Errorf ''Failed to query CPU usage''
             (Errorf ''Failed to query Prometheus'' (BackendError ''connection refused'')))"
  by (simp add: FetchResourceMetrics_def QueryPrometheus_def trafficOnlyBackend_def Let_def)

lemma degraded_traffic:
  "queryTrafficForDuration degradedBackend labels dur now = Inr (1024, 1024)"
  by (simp add: queryTrafficForDuration_def QueryPrometheus_def degradedBackend_def
        firstSample_def Let_def)

lemma degraded_yesterday:
  "GetYesterdayTraffic degradedBackend loc labels now = Ok (0, 0)"
  by (simp add: GetYesterdayTraffic_def QueryRange_def degradedBackend_def Let_def)

lemma degraded_rate:
  "QueryNetworkRate degradedBackend labels now
     = Inl (Errorf ''Failed to query upload rate''
             (Errorf ''Failed to query Prometheus'' (BackendError ''connection refused'')))"
  by (simp add: QueryNetworkRate_def QueryPrometheus_def degradedBackend_def Let_def)

lemma degraded_no_series:
  "api_Query degradedBackend (bootTimeQuery labels) now = Inr (ValVector [])"
  "api_Query degradedBackend (cpuQuery labels dur) now = Inr (ValVector [])"
  "api_Query degradedBackend (memoryQuery labels) now = Inr (ValVector [])"
  "api_Query degradedBackend (diskQuery labels) now = Inr (ValVector [])"
  "api_Query degradedBackend (diskTotalQuery labels) now = Inr (ValVector [])"
  "api_Query degradedBackend (diskAvailebleQuery labels) now = Inr (ValVector [])"
  "api_Query degradedBackend (memTotalQuery labels) now = Inr (ValVector [])"
  "api_Query degradedBackend (memAvailebleQuery labels) now = Inr (ValVector [])"
  by (simp_all add: degradedBackend_def bootTimeQuery_def cpuQuery_def memoryQuery_def
        diskQuery_def diskTotalQuery_def diskAvailebleQuery_def memTotalQuery_def
        memAvailebleQuery_def selector_def)

text \<open>On the backend that answers the traffic queries only, the uptime, rate and
  resource queries all fail and the report is returned, with those fields empty or
  zero and the traffic of yesterday in place. On the backend that refuses the rate
  queries and has no series for the uptime, the resources and yesterday, the report is
  returned with all of them empty or zero.\<close>

theorem GetInstanceInfo_fatal_and_best_effort_witness:
  "(\<exists>info. GetInstanceInfo trafficOnlyBackend UTC (time_Date 2024 4 15 UTC) exampleLabels = Ok info
         \<and> bootTime info = [] \<and> networkRate info = (0, 0) \<and> resources info = noResourceMetrics
         \<and> yesterdayTraffic info = (2048, 2048))
   \<and> (\<exists>info. GetInstanceInfo degradedBackend UTC (time_Date 2024 4 15 UTC) exampleLabels = Ok info
         \<and> bootTime info = [] \<and> networkRate info = (0, 0)
         \<and> cpuUsage (resources info) = 0 \<and> memoryUsage (resources info) = 0
         \<and> diskUsage (resources info) = 0 \<and> diskTotal (resources info) = 0
         \<and> diskAvaileble (resources info) = 0 \<and> memTotal (resources info) = 0
         \<and> memAvaileble (resources info) = 0
         \<and> yesterdayTraffic info = (0, 0))"
proof (rule conjI)
  note inst = GetInstanceInfo_fatal_and_best_effort
               [of trafficOnlyBackend UTC "time_Date 2024 4 15 UTC" exampleLabels]
  have "\<exists>window reset month yday daily.
           cycleWindow UTC (time_Date 2024 4 15 UTC) exampleLabels = Inr window
         \<and> queryTrafficForDuration trafficOnlyBackend exampleLabels (durationStr window)
              (time_Date 2024 4 15 UTC) = Inr reset
         \<and> GetNaturalMonthTraffic trafficOnlyBackend UTC exampleLabels (time_Date 2024 4 15 UTC) = Inr month
         \<and> GetYesterdayTraffic trafficOnlyBackend UTC exampleLabels (time_Date 2024 4 15 UTC) = Ok yday
         \<and> GetDailyTraffic trafficOnlyBackend UTC exampleLabels (time_Date 2024 4 15 UTC) = Inr daily"
    by (simp add: exampleWindow trafficOnly_traffic trafficOnly_yesterday
          GetNaturalMonthTraffic_def GetDailyTraffic_def Let_def)
  then obtain info
    where ok: "GetInstanceInfo trafficOnlyBackend UTC (time_Date 2024 4 15 UTC) exampleLabels = Ok info"
    using inst [THEN conjunct1] by blast
  have y: "yesterdayTraffic info = (2048, 2048)"
    using ok
    by (auto simp: GetInstanceInfo_def Let_def trafficOnly_yesterday split: sum.splits)
  have "bootTime info = [] \<and> networkRate info = (0, 0) \<and> resources info = noResourceMetrics"
    using inst [THEN conjunct2, rule_format, OF conjI, OF ok exampleWindow, THEN conjunct1]
          inst [THEN conjunct2, rule_format, OF conjI, OF ok exampleWindow, THEN conjunct2,
                THEN conjunct1]
          inst [THEN conjunct2, rule_format, OF conjI, OF ok exampleWindow, THEN conjunct2,
                THEN conjunct2, THEN conjunct1]
    by (simp add: trafficOnly_boot trafficOnly_rate trafficOnly_resources)
  with ok y show "\<exists>info. GetInstanceInfo trafficOnlyBackend UTC (time_Date 2024 4 15 UTC) exampleLabels = Ok info
         \<and> bootTime info = [] \<and> networkRate info = (0, 0) \<and> resources info = noResourceMetrics
         \<and> yesterdayTraffic info = (2048, 2048)"
    by blast
next
  note inst = GetInstanceInfo_fatal_and_best_effort [of degradedBackend UTC "time_Date 2024 4 15 UTC" exampleLabels]
  have "\<exists>window reset month yday daily.
           cycleWindow UTC (time_Date 2024 4 15 UTC) exampleLabels = Inr window
         \<and> queryTrafficForDuration degradedBackend exampleLabels (durationStr window)
              (time_Date 2024 4 15 UTC) = Inr reset
         \<and> GetNaturalMonthTraffic degradedBackend UTC exampleLabels (time_Date 2024 4 15 UTC) = Inr month
         \<and> GetYesterdayTraffic degradedBackend UTC exampleLabels (time_Date 2024 4 15 UTC) = Ok yday
         \<and> GetDailyTraffic degradedBackend UTC exampleLabels (time_Date 2024 4 15 UTC) = Inr daily"
    by (simp add: exampleWindow degraded_traffic degraded_yesterday
          GetNaturalMonthTraffic_def GetDailyTraffic_def Let_def)
  then obtain info
    where ok: "GetInstanceInfo degradedBackend UTC (time_Date 2024 4 15 UTC) exampleLabels = Ok info"
    using inst [THEN conjunct1] by blast
  have y: "yesterdayTraffic info = (0, 0)"
    using ok
    by (auto simp: GetInstanceInfo_def Let_def degraded_yesterday split: sum.splits)
  have "bootTime info = [] \<and> networkRate info = (0, 0)
         \<and> cpuUsage (resources info) = 0 \<and> memoryUsage (resources info) = 0
         \<and> diskUsage (resources info) = 0 \<and> diskTotal (resources info) = 0
         \<and> diskAvaileble (resources info) = 0 \<and> memTotal (resources info) = 0
         \<and> memAvaileble (resources info) = 0"
    using inst [THEN conjunct2, rule_format, OF conjI, OF ok exampleWindow, THEN conjunct1]
          inst [THEN conjunct2, rule_format, OF conjI, OF ok exampleWindow, THEN conjunct2,
                THEN conjunct1]
          inst [THEN conjunct2, rule_format, OF conjI, OF ok exampleWindow, THEN conjunct2,
                THEN conjunct2, THEN conjunct2, THEN spec, of "ValVector []"]
    by (simp add: degraded_rate degraded_no_series)
  with ok y show "\<exists>info. GetInstanceInfo degradedBackend UTC (time_Date 2024 4 15 UTC) exampleLabels = Ok info
         \<and> bootTime info = [] \<and> networkRate info = (0, 0)
         \<and> cpuUsage (resources info) = 0 \<and> memoryUsage (resources info) = 0
         \<and> diskUsage (resources info) = 0 \<and> diskTotal (resources info) = 0
         \<and> diskAvaileble (resources info) = 0 \<and> memTotal (resources info) = 0
         \<and> memAvaileble (resources info) = 0
         \<and> yesterdayTraffic info = (0, 0)"
    by blast
qed

lemma rangeDown_traffic:
  "queryTrafficForDuration rangeDownBackend labels dur now = Inr (1024, 1024)"
  by (simp add: queryTrafficForDuration_def QueryPrometheus_def rangeDownBackend_def
        firstSample_def Let_def)

lemma rangeDown_yesterday:
  "GetYesterdayTraffic rangeDownBackend loc labels now
     = Err (Errorf ''failed to query yesterday transmit bytes''
             (Errorf ''Failed to query yesterday transmit bytes'' (BackendError ''connection refused'')))"
  by (simp add: GetYesterdayTraffic_def QueryRange_def rangeDownBackend_def Let_def)

lemma exampleExpiry:
  "time_Parse (label exampleLabels ''expiry'') = Inr (time_Date 2024 3 31 UTC)"
  by code_simp

text \<open>
  Claim C3 as stated fails on the traffic of yesterday, which it counts among the
  best-effort values: on a backend whose range query is refused while every instant
  query answers, the cycle-window traffic is fetched and the whole report is aborted
  with the error of the yesterday fetch.
\<close>

theorem C3_yesterday_failure_aborts:
  "queryTrafficForDuration rangeDownBackend exampleLabels ''15d'' (time_Date 2024 4 15 UTC)
     = Inr (1024, 1024)
   \<and> GetInstanceInfo rangeDownBackend UTC (time_Date 2024 4 15 UTC) exampleLabels
     = Err (Errorf ''Failed to query yesterday traffic''
             (Errorf ''failed to query yesterday transmit bytes''
               (Errorf ''Failed to query yesterday transmit bytes''
                 (BackendError ''connection refused''))))"
  by (simp add: GetInstanceInfo_def exampleExpiry exampleWindow rangeDown_traffic
        rangeDown_yesterday GetNaturalMonthTraffic_def GetDailyTraffic_def Let_def)

end
